theory Spec2Isabelle
  imports Main "HOL-Library.Word" "HOL-Library.Char_ord" "HOL-Library.List_Lexorder"
begin

section \<open>Values produced by \<^verbatim>\<open>json.loads\<close>\<close>

text \<open>
  \<^verbatim>\<open>json.loads\<close> yields \<^verbatim>\<open>None\<close>, a \<^verbatim>\<open>bool\<close>, an \<^verbatim>\<open>int\<close> (unbounded), a
  \<^verbatim>\<open>float\<close> (an IEEE double, kept here as its 64 bits), a \<^verbatim>\<open>str\<close>, a \<^verbatim>\<open>list\<close> or a
  \<^verbatim>\<open>dict\<close> with string keys. A \<^verbatim>\<open>dict\<close> keeps its insertion order, so it is an
  association list.

  A \<^verbatim>\<open>str\<close> is kept as its bytes in UTF-8. \<^verbatim>\<open>json.loads\<close> accepts the escape of a lone
  surrogate (\<^verbatim>\<open>"\ud800"\<close>), which no UTF-8 text holds: such a code point is kept as the
  three bytes \<^verbatim>\<open>ED A0..BF 80..BF\<close> that \<^verbatim>\<open>encode("utf-8", "surrogatepass")\<close> gives it. The
  representation is one to one, so equality and emptiness of strings are Python's.
\<close>

datatype json =
    JNull
  | JBool bool
  | JInt int
  | JFloat "64 word"
  | JStr string
  | JArr "json list"
  | JObj "(string \<times> json) list"

type_synonym pydict = "(string \<times> json) list"

text \<open>Python truthiness (\<^verbatim>\<open>bool(v)\<close>), the test behind \<^verbatim>\<open>or\<close>, \<^verbatim>\<open>and\<close> and \<^verbatim>\<open>not\<close>.
  A float is false exactly when it is \<^verbatim>\<open>0.0\<close> or \<^verbatim>\<open>-0.0\<close>: all bits but the sign are zero.\<close>

fun truthy :: "json \<Rightarrow> bool" where
  "truthy JNull = False"
| "truthy (JBool b) = b"
| "truthy (JInt i) = (i \<noteq> 0)"
| "truthy (JFloat w) = (take_bit 63 w \<noteq> 0)"
| "truthy (JStr s) = (s \<noteq> [])"
| "truthy (JArr xs) = (xs \<noteq> [])"
| "truthy (JObj kvs) = (kvs \<noteq> [])"

text \<open>\<^verbatim>\<open>d.get(k)\<close>: the value stored under \<open>k\<close>, or \<^verbatim>\<open>None\<close> (here \<open>None\<close>) when the key
  is missing.\<close>

fun dict_get :: "pydict \<Rightarrow> string \<Rightarrow> json option" where
  "dict_get [] k = None"
| "dict_get ((k', v) # kvs) k = (if k' = k then Some v else dict_get kvs k)"

text \<open>\<^verbatim>\<open>d[k] = v\<close> (also the last item of \<^verbatim>\<open>{**d, k: v}\<close>): an existing key keeps its
  position and takes the new value, a new key goes to the end.\<close>

fun dict_set :: "pydict \<Rightarrow> string \<Rightarrow> json \<Rightarrow> pydict" where
  "dict_set [] k v = [(k, v)]"
| "dict_set ((k', v') # kvs) k v =
     (if k' = k then (k, v) # kvs else (k', v') # dict_set kvs k v)"

text \<open>\<^verbatim>\<open>d.pop(k, None)\<close>, the returned value dropped: the key is gone, nothing is raised
  when it was missing.\<close>

fun dict_pop :: "pydict \<Rightarrow> string \<Rightarrow> pydict" where
  "dict_pop [] k = []"
| "dict_pop ((k', v) # kvs) k = (if k' = k then dict_pop kvs k else (k', v) # dict_pop kvs k)"

section \<open>The migration of one document\<close>

text \<open>Line 41: \<^verbatim>\<open>status_history = fork.get("statusHistory") or []\<close>. A missing key and a
  falsy value both give the empty list; any truthy value is taken as it is.\<close>

definition status_history :: "pydict \<Rightarrow> json" where
  "status_history fork =
     (case dict_get fork ''statusHistory'' of
        None \<Rightarrow> JArr []
      | Some v \<Rightarrow> if truthy v then v else JArr [])"

text \<open>
  The body of the loop (lines 37 to 52) for one element \<open>fork\<close>: the element appended to
  \<^verbatim>\<open>migrated\<close>, and whether this iteration executes \<^verbatim>\<open>modified = True\<close>.
\<close>

definition migrate_fork :: "json \<Rightarrow> json \<times> bool" where
  "migrate_fork fork =
     (case fork of
        JObj f \<Rightarrow>
          (let sh = status_history f;
               new_fork = dict_set f ''statusHistory'' sh
           in case dict_get f ''status'' of
                Some (JStr status_value) \<Rightarrow>
                  (let new_fork' =
                         (if status_value \<noteq> [] \<and> \<not> truthy sh
                          then dict_set new_fork ''statusHistory''
                                 (JArr [JObj [(''status'', JStr status_value)]])
                          else new_fork)
                   in (JObj (dict_pop new_fork' ''status''), True))
              | _ \<Rightarrow> (JObj new_fork, False))
      | _ \<Rightarrow> (fork, False))"

text \<open>The \<^verbatim>\<open>for\<close> loop of line 36 over the remaining elements, with the loop state
  \<open>(migrated, modified)\<close>.\<close>

fun migrate_loop :: "json list \<Rightarrow> json list \<times> bool \<Rightarrow> json list \<times> bool" where
  "migrate_loop [] (migrated, modified) = (migrated, modified)"
| "migrate_loop (fork # rest) (migrated, modified) =
     (case migrate_fork fork of
        (new_fork, m) \<Rightarrow> migrate_loop rest (migrated @ [new_fork], if m then True else modified))"

datatype error =
    AttributeError
  | UnicodeEncodeError
  | SystemExit

text \<open>
  Lines 31 to 54 on the parsed value \<open>data\<close>: the value of \<^verbatim>\<open>data\<close> after the block and the
  flag \<^verbatim>\<open>modified\<close>. \<^verbatim>\<open>data.get\<close> exists on a \<^verbatim>\<open>dict\<close> only: for every other parsed value
  line 32 raises \<^verbatim>\<open>AttributeError\<close>, outside the \<^verbatim>\<open>try\<close> of line 25.
\<close>

definition migrate_data :: "json \<Rightarrow> error + (json \<times> bool)" where
  "migrate_data data =
     (case data of
        JObj d \<Rightarrow>
          (case dict_get d ''forkRelationships'' of
             Some (JArr fork_relationships) \<Rightarrow>
               (case migrate_loop fork_relationships ([], False) of
                  (migrated, modified) \<Rightarrow>
                    Inr (JObj (dict_set d ''forkRelationships'' (JArr migrated)), modified))
           | _ \<Rightarrow> Inr (JObj d, False))
      | _ \<Rightarrow> Inl AttributeError)"

section \<open>Files and the batch\<close>

text \<open>
  What the program prints, one value per \<^verbatim>\<open>print\<close> call; the text of a caught
  exception is left out.
\<close>

datatype out =
    ErrorReading string
  | Found nat
  | Migrated string
  | SummaryHeader
  | TotalFiles int
  | MigratedCount int
  | UnchangedCount int

text \<open>
  Line 57 encodes the serialised document for the file. With \<^verbatim>\<open>ensure_ascii=False\<close> every
  string of the document, key or value, stands in the text as it is, and the encoder (UTF-8,
  strict) rejects a lone surrogate. In the representation above a surrogate is the byte
  \<^verbatim>\<open>ED\<close> followed by a byte from \<^verbatim>\<open>A0\<close> on; in the UTF-8 of any other code point \<^verbatim>\<open>ED\<close> is
  followed by a byte below \<^verbatim>\<open>A0\<close>.
\<close>

fun has_surrogate :: "string \<Rightarrow> bool" where
  "has_surrogate (a # b # s) =
     ((of_char a = (0xED :: nat) \<and> (0xA0 :: nat) \<le> of_char b) \<or> has_surrogate (b # s))"
| "has_surrogate _ = False"

fun encodable :: "json \<Rightarrow> bool"
  and encodable_list :: "json list \<Rightarrow> bool"
  and encodable_items :: "(string \<times> json) list \<Rightarrow> bool"
where
  "encodable (JStr s) = (\<not> has_surrogate s)"
| "encodable (JArr xs) = encodable_list xs"
| "encodable (JObj kvs) = encodable_items kvs"
| "encodable JNull = True"
| "encodable (JBool b) = True"
| "encodable (JInt i) = True"
| "encodable (JFloat w) = True"
| "encodable_list [] = True"
| "encodable_list (x # xs) = (encodable x \<and> encodable_list xs)"
| "encodable_items [] = True"
| "encodable_items ((k, v) # kvs) = (\<not> has_surrogate k \<and> encodable v \<and> encodable_items kvs)"

text \<open>
  The file system maps a path to the text \<^verbatim>\<open>read_text\<close> returns, \<open>None\<close> where
  \<^verbatim>\<open>read_text\<close> raises. The type of texts is a parameter, and so is the JSON library:
  \<open>loads\<close> is \<^verbatim>\<open>json.loads\<close> (\<open>None\<close> where it raises), \<open>dumps d\<close> is the text
  \<^verbatim>\<open>json.dumps(d, indent=2, ensure_ascii=False) + "\n"\<close>, and \<open>empty_text\<close> is the text of a file
  of no bytes.

  \<^verbatim>\<open>write_text\<close> opens the file, which truncates it, and then encodes and writes the text.
  When the text cannot be encoded, \<^verbatim>\<open>UnicodeEncodeError\<close> leaves \<open>migrate_eip_file\<close> (line 57
  is outside the \<^verbatim>\<open>try\<close>) and the file stays empty. Failures of the interpreter or of the
  operating system (the recursion limit on a deeply nested document, permissions, a full
  disk) are not modelled.

  \<open>migrate_eip_file\<close> gives the function's result, the file system it leaves and what it
  printed; when an exception escapes, the exception stands in place of the result.
\<close>

type_synonym 't fs = "string \<Rightarrow> 't option"

definition migrate_eip_file ::
  "('t \<Rightarrow> json option) \<Rightarrow> (json \<Rightarrow> 't) \<Rightarrow> 't \<Rightarrow> 't fs \<Rightarrow> string
     \<Rightarrow> (error \<times> 't fs \<times> out list) + (bool \<times> 't fs \<times> out list)"
where
  "migrate_eip_file loads dumps empty_text fs path =
     (case (case fs path of None \<Rightarrow> None | Some text \<Rightarrow> loads text) of
        None \<Rightarrow> Inr (False, fs, [ErrorReading path])
      | Some data \<Rightarrow>
          (case migrate_data data of
             Inl e \<Rightarrow> Inl (e, fs, [])
           | Inr (data', modified) \<Rightarrow>
               if modified
               then (if encodable data'
                     then Inr (True, fs(path \<mapsto> dumps data'), [])
                     else Inl (UnicodeEncodeError, fs(path \<mapsto> empty_text), []))
               else Inr (False, fs, [])))"

text \<open>The loop of lines 70 to 73, with the loop state: the file system, the counter
  \<^verbatim>\<open>migrated\<close> and the output so far. An exception leaving \<open>migrate_eip_file\<close> ends it.\<close>

fun main_loop ::
  "('t \<Rightarrow> json option) \<Rightarrow> (json \<Rightarrow> 't) \<Rightarrow> 't \<Rightarrow> string list \<Rightarrow> 't fs \<times> int \<times> out list
     \<Rightarrow> (error \<times> 't fs \<times> out list) + ('t fs \<times> int \<times> out list)"
where
  "main_loop loads dumps empty_text [] st = Inr st"
| "main_loop loads dumps empty_text (file_path # files) (fs, migrated, printed) =
     (case migrate_eip_file loads dumps empty_text fs file_path of
        Inl (e, fs', pr) \<Rightarrow> Inl (e, fs', printed @ pr)
      | Inr (changed, fs', pr) \<Rightarrow>
          if changed
          then main_loop loads dumps empty_text files
                 (fs', migrated + 1, printed @ pr @ [Migrated file_path])
          else main_loop loads dumps empty_text files (fs', migrated, printed @ pr))"

text \<open>
  \<open>main\<close>: \<open>eips_dir\<close> is \<open>None\<close> when the directory does not exist, and otherwise the
  regular files in it that match \<^verbatim>\<open>*.json\<close>, in the order \<^verbatim>\<open>glob\<close> gives them.
\<close>

definition main ::
  "('t \<Rightarrow> json option) \<Rightarrow> (json \<Rightarrow> 't) \<Rightarrow> 't \<Rightarrow> string list option \<Rightarrow> 't fs
     \<Rightarrow> (error \<times> 't fs \<times> out list) + ('t fs \<times> out list)"
where
  "main loads dumps empty_text eips_dir fs =
     (case eips_dir of
        None \<Rightarrow> Inl (SystemExit, fs, [])
      | Some entries \<Rightarrow>
          (let files = sort entries in
           case main_loop loads dumps empty_text files (fs, 0, [Found (length files)]) of
             Inl e \<Rightarrow> Inl e
           | Inr (fs', migrated, printed) \<Rightarrow>
               Inr (fs', printed @
                      [SummaryHeader,
                       TotalFiles (int (length files)),
                       MigratedCount migrated,
                       UnchangedCount (int (length files) - migrated)])))"

section \<open>Observations used in the statements\<close>

text \<open>An element of \<^verbatim>\<open>forkRelationships\<close> that the test of line 44 accepts: a \<^verbatim>\<open>dict\<close> whose
  \<^verbatim>\<open>status\<close> is a \<^verbatim>\<open>str\<close>.\<close>

fun has_str_status :: "json \<Rightarrow> bool" where
  "has_str_status (JObj f) = (case dict_get f ''status'' of Some (JStr s) \<Rightarrow> True | _ \<Rightarrow> False)"
| "has_str_status _ = False"

text \<open>The array stored under \<^verbatim>\<open>forkRelationships\<close> at the top level of a document, when
  there is one.\<close>

definition fork_relationships :: "json \<Rightarrow> json list option" where
  "fork_relationships data =
     (case data of
        JObj d \<Rightarrow> (case dict_get d ''forkRelationships'' of Some (JArr xs) \<Rightarrow> Some xs | _ \<Rightarrow> None)
      | _ \<Rightarrow> None)"

text \<open>The condition for a rewrite, in the words of the specification: the document has a
  \<^verbatim>\<open>forkRelationships\<close> array with at least one object element whose \<^verbatim>\<open>status\<close> is a
  string.\<close>

definition needs_migration :: "json \<Rightarrow> bool" where
  "needs_migration data =
     (case fork_relationships data of
        Some forks \<Rightarrow> list_ex has_str_status forks
      | None \<Rightarrow> False)"

text \<open>A file on which line 26 raises: \<^verbatim>\<open>read_text\<close> fails, or \<^verbatim>\<open>json.loads\<close> rejects the
  text.\<close>

definition unreadable :: "('t \<Rightarrow> json option) \<Rightarrow> 't fs \<Rightarrow> string \<Rightarrow> bool" where
  "unreadable loads fs path = (case fs path of None \<Rightarrow> True | Some text \<Rightarrow> loads text = None)"

text \<open>The lines of the output that report a migrated file (line 73).\<close>

fun is_migrated :: "out \<Rightarrow> bool" where
  "is_migrated (Migrated p) = True"
| "is_migrated _ = False"

section \<open>Dictionaries, the loop and the file: basic facts\<close>

lemma dict_get_set: "dict_get (dict_set d k v) k' = (if k' = k then Some v else dict_get d k')"
  by (induction d) auto

lemma dict_get_pop: "dict_get (dict_pop d k) k' = (if k' = k then None else dict_get d k')"
  by (induction d) auto

lemma dict_set_same: "dict_get d k = Some v \<Longrightarrow> dict_set d k v = d"
  by (induction d) (auto split: if_splits)

lemma dict_set_set: "dict_set (dict_set d k a) k b = dict_set d k b"
  by (induction d) auto

lemma dict_set_absent: "dict_get d k = None \<Longrightarrow> dict_set d k v = d @ [(k, v)]"
  by (induction d) (auto split: if_splits)

lemma migrate_loop_eq:
  "migrate_loop forks (acc, m) =
     (acc @ map (\<lambda>f. fst (migrate_fork f)) forks, m \<or> list_ex (\<lambda>f. snd (migrate_fork f)) forks)"
  by (induction forks arbitrary: acc m) (auto split: prod.splits)

lemma snd_migrate_fork: "snd (migrate_fork f) = has_str_status f"
  by (cases f) (auto simp: migrate_fork_def Let_def split: option.splits json.splits)

lemma migrate_fork_no_str_status: "\<not> has_str_status (fst (migrate_fork f))"
  by (cases f) (auto simp: migrate_fork_def Let_def dict_get_set dict_get_pop split: option.splits json.splits)

lemma migrate_data_obj:
  "migrate_data (JObj d) =
     (case dict_get d ''forkRelationships'' of
        Some (JArr forks) \<Rightarrow>
          Inr (JObj (dict_set d ''forkRelationships'' (JArr (map (\<lambda>f. fst (migrate_fork f)) forks))),
               list_ex has_str_status forks)
      | _ \<Rightarrow> Inr (JObj d, False))"
  by (auto simp: migrate_data_def migrate_loop_eq snd_migrate_fork split: option.splits json.splits)

text \<open>On a \<^verbatim>\<open>dict\<close> lines 31 to 54 always complete.\<close>

lemma migrate_data_obj_returns: "\<exists>data' modified. migrate_data (JObj d) = Inr (data', modified)"
  by (auto simp: migrate_data_obj split: option.splits json.splits)

lemma migrate_data_array:
  assumes "dict_get d ''forkRelationships'' = Some (JArr forks)"
  shows "migrate_data (JObj d) =
           Inr (JObj (dict_set d ''forkRelationships'' (JArr (map (\<lambda>f. fst (migrate_fork f)) forks))),
                list_ex has_str_status forks)"
  using assms by (simp add: migrate_data_obj)

lemma migrate_data_no_array:
  assumes "\<forall>xs. dict_get d ''forkRelationships'' \<noteq> Some (JArr xs)"
  shows "migrate_data (JObj d) = Inr (JObj d, False)"
  using assms by (auto simp: migrate_data_obj split: option.splits json.splits)

lemma fork_relationships_set:
  "fork_relationships (JObj (dict_set d ''forkRelationships'' (JArr xs))) = Some xs"
  by (simp add: fork_relationships_def dict_get_set)

lemma list_ex_has_str_status_map:
  "\<not> list_ex has_str_status (map (\<lambda>f. fst (migrate_fork f)) forks)"
  by (simp add: list_ex_iff migrate_fork_no_str_status)

text \<open>The three ways out of \<open>migrate_eip_file\<close> once the file has been parsed.\<close>

lemma migrate_eip_file_read:
  assumes "fs path = Some text" "loads text = Some data"
  shows "migrate_eip_file loads dumps empty_text fs path =
     (case migrate_data data of
        Inl e \<Rightarrow> Inl (e, fs, [])
      | Inr (data', modified) \<Rightarrow>
          if modified
          then (if encodable data'
                then Inr (True, fs(path \<mapsto> dumps data'), [])
                else Inl (UnicodeEncodeError, fs(path \<mapsto> empty_text), []))
          else Inr (False, fs, []))"
  using assms by (simp add: migrate_eip_file_def)

lemma migrate_eip_file_unchanged:
  assumes "fs path = Some text" and "loads text = Some data"
    and "migrate_data data = Inr (data', False)"
  shows "migrate_eip_file loads dumps empty_text fs path = Inr (False, fs, [])"
  using assms by (simp add: migrate_eip_file_read)

lemma migrate_eip_file_written:
  assumes "fs path = Some text" and "loads text = Some data"
    and "migrate_data data = Inr (data', True)" and "encodable data'"
  shows "migrate_eip_file loads dumps empty_text fs path = Inr (True, fs(path \<mapsto> dumps data'), [])"
  using assms by (simp add: migrate_eip_file_read)

lemma migrate_eip_file_encode_error:
  assumes "fs path = Some text" and "loads text = Some data"
    and "migrate_data data = Inr (data', True)" and "\<not> encodable data'"
  shows "migrate_eip_file loads dumps empty_text fs path
           = Inl (UnicodeEncodeError, fs(path \<mapsto> empty_text), [])"
  using assms by (simp add: migrate_eip_file_read)

lemma migrate_fork_keeps_other_status:
  assumes "dict_get f ''status'' = Some v" "\<forall>s. v \<noteq> JStr s"
  shows "\<exists>f'. fst (migrate_fork (JObj f)) = JObj f' \<and> dict_get f' ''status'' = Some v"
  using assms by (cases v) (auto simp: migrate_fork_def Let_def dict_get_set)

lemma migrate_data_changed:
  assumes "dict_get d ''forkRelationships'' = Some (JArr forks)"
    and "i < length forks" and "has_str_status (forks ! i)"
  shows "migrate_data (JObj d) =
           Inr (JObj (dict_set d ''forkRelationships'' (JArr (map (\<lambda>f. fst (migrate_fork f)) forks))), True)"
proof -
  have "list_ex has_str_status forks"
    using assms(2,3) by (auto simp: list_ex_iff)
  then show ?thesis
    using assms(1) by (simp add: migrate_data_obj)
qed

lemma migrate_fork_promote:
  assumes "dict_get f ''status'' = Some (JStr s)" and "s \<noteq> []"
    and "dict_get f ''statusHistory'' = None \<or> dict_get f ''statusHistory'' = Some JNull
           \<or> dict_get f ''statusHistory'' = Some (JArr [])"
  shows "migrate_fork (JObj f) =
           (JObj (dict_pop (dict_set (dict_set f ''statusHistory'' (JArr [])) ''statusHistory''
                     (JArr [JObj [(''status'', JStr s)]])) ''status''), True)"
  using assms by (auto simp: migrate_fork_def status_history_def)

lemma migrate_fork_keep:
  assumes "dict_get f ''status'' = Some (JStr s)"
    and "dict_get f ''statusHistory'' = Some (JArr (h # hs))"
  shows "migrate_fork (JObj f) =
           (JObj (dict_pop (dict_set f ''statusHistory'' (JArr (h # hs))) ''status''), True)"
  using assms by (auto simp: migrate_fork_def status_history_def)

text \<open>What the loop body makes of an object and of anything else.\<close>

lemma migrate_fork_object:
  "\<exists>f'. fst (migrate_fork (JObj f)) = JObj f'
      \<and> (\<exists>h. dict_get f' ''statusHistory'' = Some h)
      \<and> (\<forall>k. k \<noteq> ''status'' \<and> k \<noteq> ''statusHistory'' \<longrightarrow> dict_get f' k = dict_get f k)"
  by (auto simp: migrate_fork_def Let_def dict_get_set dict_get_pop split: option.splits json.splits)

lemma migrate_fork_no_string:
  assumes "\<forall>s. dict_get f ''status'' \<noteq> Some (JStr s)"
  shows "migrate_fork (JObj f) = (JObj (dict_set f ''statusHistory'' (status_history f)), False)"
  using assms by (auto simp: migrate_fork_def Let_def split: option.splits json.splits)

lemma migrate_fork_default:
  assumes "dict_get f ''status'' = None" and "dict_get f ''statusHistory'' = None"
  shows "migrate_fork (JObj f) = (JObj (f @ [(''statusHistory'', JArr [])]), False)"
  using assms by (simp add: migrate_fork_def status_history_def dict_set_absent)

lemma migrate_fork_other:
  "\<forall>f. e \<noteq> JObj f \<Longrightarrow> migrate_fork e = (e, False)"
  by (cases e) (auto simp: migrate_fork_def)

text \<open>A second pass over a migrated element changes nothing.\<close>

lemma status_history_fixed:
  "dict_get f ''statusHistory'' = Some h \<Longrightarrow> truthy h \<or> h = JArr [] \<Longrightarrow> status_history f = h"
  by (auto simp: status_history_def)

lemma status_history_shape: "truthy (status_history f) \<or> status_history f = JArr []"
  by (auto simp: status_history_def split: option.splits)

lemma migrate_fork_fixed: "migrate_fork (fst (migrate_fork e)) = (fst (migrate_fork e), False)"
proof (cases e)
  case (JObj f)
  let ?sh = "status_history f"
  let ?nf = "dict_set f ''statusHistory'' ?sh"
  show ?thesis
  proof (cases "\<exists>s. dict_get f ''status'' = Some (JStr s)")
    case True
    then obtain s where s: "dict_get f ''status'' = Some (JStr s)" by blast
    let ?h = "if s \<noteq> [] \<and> \<not> truthy ?sh then JArr [JObj [(''status'', JStr s)]] else ?sh"
    let ?f' = "dict_pop (if s \<noteq> [] \<and> \<not> truthy ?sh
                         then dict_set ?nf ''statusHistory'' (JArr [JObj [(''status'', JStr s)]])
                         else ?nf) ''status''"
    have first: "fst (migrate_fork e) = JObj ?f'"
      using JObj s by (simp add: migrate_fork_def Let_def)
    have h: "dict_get ?f' ''statusHistory'' = Some ?h"
      by (simp add: dict_get_set dict_get_pop)
    have nost: "dict_get ?f' ''status'' = None"
      by (simp add: dict_get_pop)
    have "truthy ?h \<or> ?h = JArr []"
      using status_history_shape [of f] by auto
    then have sh': "status_history ?f' = ?h"
      using h by (rule status_history_fixed [rotated])
    have "migrate_fork (JObj ?f') = (JObj ?f', False)"
      using nost h by (simp add: migrate_fork_def Let_def sh' dict_set_same)
    then show ?thesis using first by simp
  next
    case False
    have first: "fst (migrate_fork e) = JObj ?nf"
      using JObj False by (auto simp: migrate_fork_def Let_def split: option.splits json.splits)
    have h: "dict_get ?nf ''statusHistory'' = Some ?sh"
      by (simp add: dict_get_set)
    have st: "dict_get ?nf ''status'' = dict_get f ''status''"
      by (simp add: dict_get_set)
    have sh': "status_history ?nf = ?sh"
      using h status_history_shape [of f] by (rule status_history_fixed)
    have "migrate_fork (JObj ?nf) = (JObj ?nf, False)"
      using False h st by (auto simp: migrate_fork_def Let_def sh' dict_set_same split: option.splits json.splits)
    then show ?thesis using first by simp
  qed
qed (simp_all add: migrate_fork_def)

lemma map_migrate_fork_fixed:
  "map (\<lambda>f. fst (migrate_fork f)) (map (\<lambda>f. fst (migrate_fork f)) forks)
     = map (\<lambda>f. fst (migrate_fork f)) forks"
  by (simp add: migrate_fork_fixed)

lemma migrate_data_fixed:
  assumes "migrate_data (JObj d) = Inr (data', changed)"
  shows "migrate_data data' = Inr (data', False)"
proof (cases "\<exists>forks. dict_get d ''forkRelationships'' = Some (JArr forks)")
  case True
  then obtain forks where fr: "dict_get d ''forkRelationships'' = Some (JArr forks)" by blast
  let ?forks' = "map (\<lambda>f. fst (migrate_fork f)) forks"
  let ?d' = "dict_set d ''forkRelationships'' (JArr ?forks')"
  have d': "data' = JObj ?d'"
    using assms fr by (simp add: migrate_data_obj)
  have get: "dict_get ?d' ''forkRelationships'' = Some (JArr ?forks')"
    by (simp add: dict_get_set)
  have again: "map (\<lambda>f. fst (migrate_fork f)) ?forks' = ?forks'"
    by (rule map_migrate_fork_fixed)
  have flag: "list_ex has_str_status ?forks' = False"
    using list_ex_has_str_status_map [of forks] by simp
  have "migrate_data (JObj ?d') =
          Inr (JObj (dict_set ?d' ''forkRelationships''
                 (JArr (map (\<lambda>f. fst (migrate_fork f)) ?forks'))),
               list_ex has_str_status ?forks')"
    using get by (rule migrate_data_array)
  then have "migrate_data (JObj ?d') = Inr (JObj ?d', False)"
    unfolding again flag dict_set_same [OF get] .
  then show ?thesis using d' by simp
next
  case False
  then have none: "\<forall>xs. dict_get d ''forkRelationships'' \<noteq> Some (JArr xs)" by blast
  have "data' = JObj d"
    using assms by (simp add: migrate_data_no_array [OF none])
  then show ?thesis
    by (simp add: migrate_data_no_array [OF none])
qed

text \<open>Files that cannot be read keep that state while the loop runs.\<close>

lemma migrate_eip_file_unreadable:
  "unreadable loads fs path \<Longrightarrow>
     migrate_eip_file loads dumps empty_text fs path = Inr (False, fs, [ErrorReading path])"
  by (auto simp: unreadable_def migrate_eip_file_def split: option.splits)

lemma migrate_eip_file_result:
  assumes "migrate_eip_file loads dumps empty_text fs g = Inr (c, fs1, p1)"
  shows "(c \<and> \<not> unreadable loads fs g \<and> (\<exists>t. fs1 = fs(g \<mapsto> t)) \<and> p1 = [])
       \<or> (\<not> c \<and> fs1 = fs \<and> (p1 = [] \<or> p1 = [ErrorReading g]))"
  using assms
  by (auto simp: unreadable_def migrate_eip_file_def split: option.splits sum.splits if_splits)

lemma unreadable_other:
  "g \<noteq> file \<Longrightarrow> unreadable loads (fs(g \<mapsto> t)) file = unreadable loads fs file"
  by (simp add: unreadable_def)

lemma main_loop_unreadable:
  assumes "main_loop loads dumps empty_text files (fs, m, pr) = Inr (fs', m', pr')"
    and "unreadable loads fs file"
  shows "unreadable loads fs' file
       \<and> (\<exists>new. pr' = pr @ new \<and> Migrated file \<notin> set new
             \<and> m' = m + int (length (filter is_migrated new))
             \<and> (file \<in> set files \<longrightarrow> ErrorReading file \<in> set new)
             \<and> length (filter is_migrated new) \<le> length (filter (\<lambda>g. g \<noteq> file) files))"
  using assms
proof (induction files arbitrary: fs m pr)
  case Nil
  then show ?case by simp
next
  case (Cons g files)
  show ?case
  proof (cases "g = file")
    case True
    then have step: "migrate_eip_file loads dumps empty_text fs g = Inr (False, fs, [ErrorReading file])"
      using Cons.prems(2) by (simp add: migrate_eip_file_unreadable)
    then have "main_loop loads dumps empty_text files (fs, m, pr @ [ErrorReading file]) = Inr (fs', m', pr')"
      using Cons.prems(1) by simp
    from Cons.IH [OF this Cons.prems(2)]
    obtain new where u: "unreadable loads fs' file"
      and new: "pr' = (pr @ [ErrorReading file]) @ new" "Migrated file \<notin> set new"
        "m' = m + int (length (filter is_migrated new))"
        "length (filter is_migrated new) \<le> length (filter (\<lambda>g. g \<noteq> file) files)"
      by blast
    let ?new = "ErrorReading file # new"
    have "pr' = pr @ ?new" "Migrated file \<notin> set ?new"
      "m' = m + int (length (filter is_migrated ?new))"
      "file \<in> set (g # files) \<longrightarrow> ErrorReading file \<in> set ?new"
      "length (filter is_migrated ?new) \<le> length (filter (\<lambda>g. g \<noteq> file) (g # files))"
      using new True by simp_all
    with u show ?thesis by blast
  next
    case False
    obtain c fs1 p1 where step: "migrate_eip_file loads dumps empty_text fs g = Inr (c, fs1, p1)"
      using Cons.prems(1) by (auto split: sum.splits)
    from migrate_eip_file_result [OF step]
    have u1: "unreadable loads fs1 file"
      using Cons.prems(2) False by (auto simp: unreadable_other)
    show ?thesis
    proof (cases c)
      case True
      then have p1: "p1 = []" using migrate_eip_file_result [OF step] by auto
      have "main_loop loads dumps empty_text files (fs1, m + 1, pr @ [Migrated g]) = Inr (fs', m', pr')"
        using Cons.prems(1) step True p1 by simp
      from Cons.IH [OF this u1]
      obtain new where u: "unreadable loads fs' file"
        and new: "pr' = (pr @ [Migrated g]) @ new" "Migrated file \<notin> set new"
          "m' = m + 1 + int (length (filter is_migrated new))"
          "file \<in> set files \<longrightarrow> ErrorReading file \<in> set new"
          "length (filter is_migrated new) \<le> length (filter (\<lambda>g. g \<noteq> file) files)"
        by blast
      let ?new = "Migrated g # new"
      have "pr' = pr @ ?new" "Migrated file \<notin> set ?new"
        "m' = m + int (length (filter is_migrated ?new))"
        "file \<in> set (g # files) \<longrightarrow> ErrorReading file \<in> set ?new"
        "length (filter is_migrated ?new) \<le> length (filter (\<lambda>g. g \<noteq> file) (g # files))"
        using new False by simp_all
      with u show ?thesis by blast
    next
      case c: False
      then have p1: "p1 = [] \<or> p1 = [ErrorReading g]" using migrate_eip_file_result [OF step] by auto
      have "main_loop loads dumps empty_text files (fs1, m, pr @ p1) = Inr (fs', m', pr')"
        using Cons.prems(1) step c by simp
      from Cons.IH [OF this u1]
      obtain new where u: "unreadable loads fs' file"
        and new: "pr' = (pr @ p1) @ new" "Migrated file \<notin> set new"
          "m' = m + int (length (filter is_migrated new))"
          "file \<in> set files \<longrightarrow> ErrorReading file \<in> set new"
          "length (filter is_migrated new) \<le> length (filter (\<lambda>g. g \<noteq> file) files)"
        by blast
      let ?new = "p1 @ new"
      have "pr' = pr @ ?new" "Migrated file \<notin> set ?new"
        "m' = m + int (length (filter is_migrated ?new))"
        "file \<in> set (g # files) \<longrightarrow> ErrorReading file \<in> set ?new"
        "length (filter is_migrated ?new) \<le> length (filter (\<lambda>g. g \<noteq> file) (g # files))"
        using new False p1 by auto
      with u show ?thesis by blast
    qed
  qed
qed

lemma filter_neq_less:
  "file \<in> set files \<Longrightarrow> length (filter (\<lambda>g. g \<noteq> file) files) < length files"
  by (induction files) (auto simp: less_Suc_eq_le)

section \<open>The \<^verbatim>\<open>status\<close> field after the migration\<close>

text \<open>
  Claim C1, as the code has it. Let \<open>migrate_eip_file\<close> parse a document and return. Then
  no element of the \<^verbatim>\<open>forkRelationships\<close> array of the migrated document is an object
  with a string under \<^verbatim>\<open>status\<close>, whether that string was empty or not; the migrated
  document is what the file holds when the result is \<open>True\<close>, and when the result is
  \<open>False\<close> the file is left as it was and had no such element either. A \<^verbatim>\<open>status\<close> that
  is not a string (a number, \<^verbatim>\<open>null\<close>, a list, ...) is not touched: the entry keeps it.
\<close>

theorem string_status_removed:
  assumes "fs path = Some text" and "loads text = Some data"
    and "migrate_eip_file loads dumps empty_text fs path = Inr (changed, fs', printed)"
  shows "\<exists>data'. migrate_data data = Inr (data', changed)
           \<and> fs' = (if changed then fs(path \<mapsto> dumps data') else fs)
           \<and> (\<forall>forks'. fork_relationships data' = Some forks' \<longrightarrow>
                  (\<forall>e \<in> set forks'. \<not> has_str_status e))
           \<and> (\<forall>forks. \<not> changed \<and> fork_relationships data = Some forks \<longrightarrow>
                  (\<forall>e \<in> set forks. \<not> has_str_status e))
           \<and> (\<forall>forks i f v. fork_relationships data = Some forks \<and> i < length forks
                  \<and> forks ! i = JObj f \<and> dict_get f ''status'' = Some v \<and> (\<forall>s. v \<noteq> JStr s) \<longrightarrow>
                  (\<exists>forks' f'. fork_relationships data' = Some forks' \<and> length forks' = length forks
                      \<and> forks' ! i = JObj f' \<and> dict_get f' ''status'' = Some v))"
proof (cases data)
  case (JObj d)
  show ?thesis
  proof (cases "\<exists>forks. dict_get d ''forkRelationships'' = Some (JArr forks)")
    case True
    then obtain forks where fr: "dict_get d ''forkRelationships'' = Some (JArr forks)" by blast
    let ?forks' = "map (\<lambda>f. fst (migrate_fork f)) forks"
    let ?data' = "JObj (dict_set d ''forkRelationships'' (JArr ?forks'))"
    have md: "migrate_data data = Inr (?data', list_ex has_str_status forks)"
      using JObj fr by (simp add: migrate_data_obj)
    have ch: "changed = list_ex has_str_status forks"
      and fs': "fs' = (if changed then fs(path \<mapsto> dumps ?data') else fs)"
      using assms md by (auto simp: migrate_eip_file_read split: if_splits)
    have frd: "fork_relationships data = Some forks"
      using JObj fr by (simp add: fork_relationships_def)
    have a: "\<forall>forks'. fork_relationships ?data' = Some forks' \<longrightarrow>
                  (\<forall>e \<in> set forks'. \<not> has_str_status e)"
      by (simp add: fork_relationships_set migrate_fork_no_str_status)
    have b: "\<forall>forks. \<not> changed \<and> fork_relationships data = Some forks \<longrightarrow>
                  (\<forall>e \<in> set forks. \<not> has_str_status e)"
      using ch frd by (auto simp: list_ex_iff)
    have c: "\<forall>forks i f v. fork_relationships data = Some forks \<and> i < length forks
                  \<and> forks ! i = JObj f \<and> dict_get f ''status'' = Some v \<and> (\<forall>s. v \<noteq> JStr s) \<longrightarrow>
                  (\<exists>forks' f'. fork_relationships ?data' = Some forks' \<and> length forks' = length forks
                      \<and> forks' ! i = JObj f' \<and> dict_get f' ''status'' = Some v)"
      using frd migrate_fork_keeps_other_status by (auto simp: fork_relationships_set)
    show ?thesis using md ch fs' a b c by blast
  next
    case False
    then have md: "migrate_data data = Inr (data, False)"
      using JObj by (auto simp: migrate_data_obj split: option.splits json.splits)
    have frd: "fork_relationships data = None"
      using JObj False by (auto simp: fork_relationships_def split: option.splits json.splits)
    have "changed = False" "fs' = fs"
      using assms md by (auto simp: migrate_eip_file_read)
    then show ?thesis using md frd by simp
  qed
qed (use assms in \<open>auto simp: migrate_eip_file_read migrate_data_def\<close>)


theorem string_status_removed_witness:
  "\<exists>data'. migrate_data (JObj [(''forkRelationships'', JArr [JObj [(''status'', JStr ''Included'')]])])
              = Inr (data', True)
     \<and> fork_relationships data' = Some [JObj [(''statusHistory'', JArr [JObj [(''status'', JStr ''Included'')]])]]
     \<and> \<not> has_str_status (JObj [(''statusHistory'', JArr [JObj [(''status'', JStr ''Included'')]])])"
proof -
  let ?doc = "JObj [(''forkRelationships'', JArr [JObj [(''status'', JStr ''Included'')]])]"
  let ?doc' = "JObj [(''forkRelationships'',
                  JArr [JObj [(''statusHistory'', JArr [JObj [(''status'', JStr ''Included'')]])]])]"
  let ?fs = "Map.empty(''eip-1.json'' \<mapsto> Some ?doc)"
  have run: "migrate_eip_file id Some None ?fs ''eip-1.json''
               = Inr (True, ?fs(''eip-1.json'' \<mapsto> Some ?doc'), [])"
    by (simp add: migrate_eip_file_def migrate_data_def migrate_fork_def status_history_def)
  have "?fs ''eip-1.json'' = Some (Some ?doc)" "id (Some ?doc) = Some ?doc" by simp_all
  from string_status_removed [OF this run]
  show ?thesis
    by (auto simp: fork_relationships_def migrate_data_def migrate_fork_def status_history_def)
qed

text \<open>
  The claim as written, "whatever type or value the input \<^verbatim>\<open>status\<close> had", fails on
  \<^verbatim>\<open>{"forkRelationships": [{"status": 5}, {"status": "Included"}]}\<close>: the file is rewritten
  and its first entry still carries \<^verbatim>\<open>"status": 5\<close>.
\<close>

theorem status_retained_counterexample:
  "migrate_eip_file id Some None
     (Map.empty(''eip-1.json'' \<mapsto>
        Some (JObj [(''forkRelationships'',
                JArr [JObj [(''status'', JInt 5)], JObj [(''status'', JStr ''Included'')]])])))
     ''eip-1.json''
   = Inr (True,
          Map.empty(''eip-1.json'' \<mapsto>
            Some (JObj [(''forkRelationships'',
                    JArr [JObj [(''status'', JInt 5), (''statusHistory'', JArr [])],
                          JObj [(''statusHistory'', JArr [JObj [(''status'', JStr ''Included'')]])]])])),
          [])
   \<and> dict_get [(''status'', JInt 5), (''statusHistory'', JArr [])] ''status'' = Some (JInt 5)"
  by (simp add: migrate_eip_file_def migrate_data_def migrate_fork_def status_history_def)

section \<open>Idempotence\<close>

text \<open>
  Claim C2. Let the file hold a JSON object, let \<open>data'\<close> and \<open>changed\<close> be what lines 31
  to 54 make of it (\<open>migrate_data_obj_returns\<close>: on an object they always complete), let
  \<^verbatim>\<open>json.loads\<close> read the text of \<open>data'\<close> back as \<open>data'\<close>, and let it reject the text of
  an empty file. Then:
  \<^item> a second pass over \<open>data'\<close> finds no entry with a string \<^verbatim>\<open>status\<close>: it reports no
    change and leaves \<open>data'\<close> as it is;
  \<^item> when the first run has nothing to write or can encode what it writes, it returns
    \<open>changed\<close>, and a second run on the file system it leaves returns \<open>False\<close> and
    writes nothing;
  \<^item> when the first run cannot encode what it writes, \<^verbatim>\<open>UnicodeEncodeError\<close> escapes it
    and the file is left empty; a second run then finds nothing to parse, returns
    \<open>False\<close> and writes nothing.
\<close>

theorem migrate_idempotent:
  assumes "fs path = Some text" and "loads text = Some (JObj d)"
    and "migrate_data (JObj d) = Inr (data', changed)"
    and "loads (dumps data') = Some data'" and "loads empty_text = None"
  shows "migrate_data data' = Inr (data', False)
       \<and> (\<not> changed \<or> encodable data' \<longrightarrow>
            (\<exists>fs'. migrate_eip_file loads dumps empty_text fs path = Inr (changed, fs', [])
                 \<and> migrate_eip_file loads dumps empty_text fs' path = Inr (False, fs', [])))
       \<and> (changed \<and> \<not> encodable data' \<longrightarrow>
            (\<exists>fs'. migrate_eip_file loads dumps empty_text fs path
                      = Inl (UnicodeEncodeError, fs', [])
                 \<and> migrate_eip_file loads dumps empty_text fs' path
                      = Inr (False, fs', [ErrorReading path])))"
proof (intro conjI impI)
  show again: "migrate_data data' = Inr (data', False)"
    using assms(3) by (rule migrate_data_fixed)
  show "\<exists>fs'. migrate_eip_file loads dumps empty_text fs path = Inr (changed, fs', [])
           \<and> migrate_eip_file loads dumps empty_text fs' path = Inr (False, fs', [])"
    if ok: "\<not> changed \<or> encodable data'"
  proof (cases changed)
    case True
    let ?fs' = "fs(path \<mapsto> dumps data')"
    have md: "migrate_data (JObj d) = Inr (data', True)"
      using assms(3) True by simp
    have enc: "encodable data'"
      using ok True by simp
    have first: "migrate_eip_file loads dumps empty_text fs path = Inr (True, ?fs', [])"
      using assms(1,2) md enc by (rule migrate_eip_file_written)
    have rd: "?fs' path = Some (dumps data')" by simp
    have second: "migrate_eip_file loads dumps empty_text ?fs' path = Inr (False, ?fs', [])"
      using rd assms(4) again by (rule migrate_eip_file_unchanged)
    show ?thesis
      using first second True by (intro exI [of _ ?fs']) simp
  next
    case False
    have md: "migrate_data (JObj d) = Inr (data', False)"
      using assms(3) False by simp
    have "migrate_eip_file loads dumps empty_text fs path = Inr (False, fs, [])"
      using assms(1,2) md by (rule migrate_eip_file_unchanged)
    then show ?thesis
      using False by (intro exI [of _ fs]) simp
  qed
  show "\<exists>fs'. migrate_eip_file loads dumps empty_text fs path = Inl (UnicodeEncodeError, fs', [])
           \<and> migrate_eip_file loads dumps empty_text fs' path = Inr (False, fs', [ErrorReading path])"
    if bad: "changed \<and> \<not> encodable data'"
  proof -
    let ?fs' = "fs(path \<mapsto> empty_text)"
    have md: "migrate_data (JObj d) = Inr (data', True)"
      using assms(3) bad by simp
    have enc: "\<not> encodable data'"
      using bad by simp
    have first: "migrate_eip_file loads dumps empty_text fs path
                   = Inl (UnicodeEncodeError, ?fs', [])"
      using assms(1,2) md enc by (rule migrate_eip_file_encode_error)
    have "unreadable loads ?fs' path"
      using assms(5) by (simp add: unreadable_def)
    then have "migrate_eip_file loads dumps empty_text ?fs' path
                 = Inr (False, ?fs', [ErrorReading path])"
      by (rule migrate_eip_file_unreadable)
    with first show ?thesis by (intro exI [of _ ?fs']) simp
  qed
qed

theorem migrate_idempotent_witness:
  "migrate_data (JObj [(''id'', JInt 1),
        (''forkRelationships'',
           JArr [JObj [(''forkName'', JStr ''Pectra''),
                       (''statusHistory'', JArr [JObj [(''status'', JStr ''Included'')]])]])])
     = Inr (JObj [(''id'', JInt 1),
        (''forkRelationships'',
           JArr [JObj [(''forkName'', JStr ''Pectra''),
                       (''statusHistory'', JArr [JObj [(''status'', JStr ''Included'')]])]])], False)
   \<and> (\<exists>fs'. migrate_eip_file id Some None
            (Map.empty(''eip-1.json'' \<mapsto>
               Some (JObj [(''id'', JInt 1),
                           (''forkRelationships'',
                              JArr [JObj [(''forkName'', JStr ''Pectra''), (''status'', JStr ''Included'')]])])))
            ''eip-1.json'' = Inr (True, fs', [])
         \<and> migrate_eip_file id Some None fs' ''eip-1.json'' = Inr (False, fs', []))
   \<and> (\<exists>fs'. migrate_eip_file id Some None
            (Map.empty(''eip-2.json'' \<mapsto>
               Some (JObj [(''forkRelationships'',
                              JArr [JObj [(''status'', JStr [CHR 0xED, CHR 0xA0, CHR 0x80])]])])))
            ''eip-2.json'' = Inl (UnicodeEncodeError, fs', [])
         \<and> migrate_eip_file id Some None fs' ''eip-2.json''
              = Inr (False, fs', [ErrorReading ''eip-2.json'']))"
proof -
  let ?d = "[(''id'', JInt 1),
             (''forkRelationships'',
                JArr [JObj [(''forkName'', JStr ''Pectra''), (''status'', JStr ''Included'')]])]"
  let ?data' = "JObj [(''id'', JInt 1),
             (''forkRelationships'',
                JArr [JObj [(''forkName'', JStr ''Pectra''),
                            (''statusHistory'', JArr [JObj [(''status'', JStr ''Included'')]])]])]"
  let ?fs = "Map.empty(''eip-1.json'' \<mapsto> Some (JObj ?d))"
  have 1: "?fs ''eip-1.json'' = Some (Some (JObj ?d))" by simp
  have 2: "id (Some (JObj ?d)) = Some (JObj ?d)" by simp
  have 3: "migrate_data (JObj ?d) = Inr (?data', True)"
    by (simp add: migrate_data_def migrate_fork_def status_history_def)
  have 4: "id (Some ?data') = Some ?data'" by simp
  have 5: "id (None :: json option) = None" by simp
  have enc: "\<not> True \<or> encodable ?data'" by simp
  note inst = migrate_idempotent
      [where loads = id and dumps = Some and empty_text = None and fs = ?fs, OF 1 2 3 4 5]
  have a: "migrate_data ?data' = Inr (?data', False)"
    using inst by (rule conjunct1)
  have b: "\<exists>fs'. migrate_eip_file id Some None ?fs ''eip-1.json'' = Inr (True, fs', [])
         \<and> migrate_eip_file id Some None fs' ''eip-1.json'' = Inr (False, fs', [])"
    using inst [THEN conjunct2, THEN conjunct1, rule_format, OF enc] .
  let ?e = "[(''forkRelationships'',
               JArr [JObj [(''status'', JStr [CHR 0xED, CHR 0xA0, CHR 0x80])]])]"
  let ?edata' = "JObj [(''forkRelationships'',
               JArr [JObj [(''statusHistory'',
                             JArr [JObj [(''status'', JStr [CHR 0xED, CHR 0xA0, CHR 0x80])]])]])]"
  let ?efs = "Map.empty(''eip-2.json'' \<mapsto> Some (JObj ?e))"
  have e1: "?efs ''eip-2.json'' = Some (Some (JObj ?e))" by simp
  have e2: "id (Some (JObj ?e)) = Some (JObj ?e)" by simp
  have e3: "migrate_data (JObj ?e) = Inr (?edata', True)"
    by (simp add: migrate_data_def migrate_fork_def status_history_def)
  have e4: "id (Some ?edata') = Some ?edata'" by simp
  have bad: "True \<and> \<not> encodable ?edata'" by simp
  note einst = migrate_idempotent
      [where loads = id and dumps = Some and empty_text = None and fs = ?efs, OF e1 e2 e3 e4 5]
  have c: "\<exists>fs'. migrate_eip_file id Some None ?efs ''eip-2.json''
                  = Inl (UnicodeEncodeError, fs', [])
         \<and> migrate_eip_file id Some None fs' ''eip-2.json''
              = Inr (False, fs', [ErrorReading ''eip-2.json''])"
    using einst [THEN conjunct2, THEN conjunct2, rule_format, OF bad] .
  show ?thesis using a b c by (intro conjI)
qed

section \<open>Promotion and preservation\<close>

text \<open>
  Claim C3. Let the document be an object whose \<^verbatim>\<open>forkRelationships\<close> is an array, and let
  its element \<open>i\<close> be an object \<open>f\<close> with a non-empty string \<open>s\<close> under \<^verbatim>\<open>status\<close> and with
  \<^verbatim>\<open>statusHistory\<close> absent, \<^verbatim>\<open>null\<close> or the empty array. Then lines 31 to 54 set
  \<^verbatim>\<open>modified\<close>, and element \<open>i\<close> of the migrated array is \<open>f\<close> with \<^verbatim>\<open>statusHistory\<close> set to
  \<^verbatim>\<open>[{"status": s}]\<close> and \<^verbatim>\<open>status\<close> popped: it has that history, no \<^verbatim>\<open>status\<close>, and every
  other field as before. The run then writes the migrated document and returns \<open>True\<close>,
  unless the document cannot be encoded: then line 57 raises and leaves the file empty.
\<close>

theorem status_promotion:
  assumes "fs path = Some text" and "loads text = Some (JObj d)"
    and "dict_get d ''forkRelationships'' = Some (JArr forks)"
    and "i < length forks" and "forks ! i = JObj f"
    and "dict_get f ''status'' = Some (JStr s)" and "s \<noteq> []"
    and "dict_get f ''statusHistory'' = None \<or> dict_get f ''statusHistory'' = Some JNull
           \<or> dict_get f ''statusHistory'' = Some (JArr [])"
  shows "\<exists>data' forks' f'.
           migrate_data (JObj d) = Inr (data', True)
         \<and> fork_relationships data' = Some forks' \<and> length forks' = length forks
         \<and> forks' ! i = JObj f'
         \<and> f' = dict_pop (dict_set f ''statusHistory'' (JArr [JObj [(''status'', JStr s)]])) ''status''
         \<and> dict_get f' ''statusHistory'' = Some (JArr [JObj [(''status'', JStr s)]])
         \<and> dict_get f' ''status'' = None
         \<and> (\<forall>k. k \<noteq> ''status'' \<and> k \<noteq> ''statusHistory'' \<longrightarrow> dict_get f' k = dict_get f k)
         \<and> (encodable data' \<longrightarrow>
              migrate_eip_file loads dumps empty_text fs path
                = Inr (True, fs(path \<mapsto> dumps data'), []))
         \<and> (\<not> encodable data' \<longrightarrow>
              migrate_eip_file loads dumps empty_text fs path
                = Inl (UnicodeEncodeError, fs(path \<mapsto> empty_text), []))"
proof -
  let ?forks' = "map (\<lambda>f. fst (migrate_fork f)) forks"
  let ?data' = "JObj (dict_set d ''forkRelationships'' (JArr ?forks'))"
  let ?f' = "dict_pop (dict_set f ''statusHistory'' (JArr [JObj [(''status'', JStr s)]])) ''status''"
  have hs: "has_str_status (forks ! i)"
    using assms(5,6) by simp
  have md: "migrate_data (JObj d) = Inr (?data', True)"
    using assms(3,4) hs by (rule migrate_data_changed)
  have ok: "encodable ?data' \<longrightarrow>
              migrate_eip_file loads dumps empty_text fs path
                = Inr (True, fs(path \<mapsto> dumps ?data'), [])"
    using assms(1,2) md by (simp add: migrate_eip_file_read)
  have bad: "\<not> encodable ?data' \<longrightarrow>
              migrate_eip_file loads dumps empty_text fs path
                = Inl (UnicodeEncodeError, fs(path \<mapsto> empty_text), [])"
    using assms(1,2) md by (simp add: migrate_eip_file_read)
  have elem: "?forks' ! i = JObj ?f'"
    using assms(4,5) migrate_fork_promote [OF assms(6-8)] by (simp add: dict_set_set)
  have gets: "dict_get ?f' ''statusHistory'' = Some (JArr [JObj [(''status'', JStr s)]])"
    "dict_get ?f' ''status'' = None"
    "\<forall>k. k \<noteq> ''status'' \<and> k \<noteq> ''statusHistory'' \<longrightarrow> dict_get ?f' k = dict_get f k"
    by (simp_all add: dict_get_set dict_get_pop)
  have fr: "fork_relationships ?data' = Some ?forks'" "length ?forks' = length forks"
    by (simp_all add: fork_relationships_set)
  show ?thesis
    using md fr elem gets ok bad by blast
qed

theorem status_promotion_witness:
  "(\<exists>data' forks' f'.
       migrate_data (JObj [(''forkRelationships'',
            JArr [JNull, JStr ''x'',
                  JObj [(''forkName'', JStr ''Pectra''), (''status'', JStr ''Included''),
                        (''statusHistory'', JArr [])]])]) = Inr (data', True)
     \<and> fork_relationships data' = Some forks'
     \<and> length forks' = length [JNull, JStr ''x'',
                  JObj [(''forkName'', JStr ''Pectra''), (''status'', JStr ''Included''),
                        (''statusHistory'', JArr [])]]
     \<and> forks' ! 2 = JObj f'
     \<and> f' = dict_pop (dict_set [(''forkName'', JStr ''Pectra''), (''status'', JStr ''Included''),
                        (''statusHistory'', JArr [])] ''statusHistory''
                 (JArr [JObj [(''status'', JStr ''Included'')]])) ''status''
     \<and> dict_get f' ''statusHistory'' = Some (JArr [JObj [(''status'', JStr ''Included'')]])
     \<and> dict_get f' ''status'' = None
     \<and> (\<forall>k. k \<noteq> ''status'' \<and> k \<noteq> ''statusHistory'' \<longrightarrow>
            dict_get f' k = dict_get [(''forkName'', JStr ''Pectra''), (''status'', JStr ''Included''),
                        (''statusHistory'', JArr [])] k)
     \<and> (encodable data' \<longrightarrow>
          migrate_eip_file id Some None
             (Map.empty(''eip-1.json'' \<mapsto> Some (JObj [(''forkRelationships'',
                JArr [JNull, JStr ''x'',
                      JObj [(''forkName'', JStr ''Pectra''), (''status'', JStr ''Included''),
                            (''statusHistory'', JArr [])]])])))
             ''eip-1.json''
           = Inr (True,
                (Map.empty(''eip-1.json'' \<mapsto> Some (JObj [(''forkRelationships'',
                   JArr [JNull, JStr ''x'',
                         JObj [(''forkName'', JStr ''Pectra''), (''status'', JStr ''Included''),
                               (''statusHistory'', JArr [])]])])))
                (''eip-1.json'' \<mapsto> Some data'), []))
     \<and> (\<not> encodable data' \<longrightarrow>
          migrate_eip_file id Some None
             (Map.empty(''eip-1.json'' \<mapsto> Some (JObj [(''forkRelationships'',
                JArr [JNull, JStr ''x'',
                      JObj [(''forkName'', JStr ''Pectra''), (''status'', JStr ''Included''),
                            (''statusHistory'', JArr [])]])])))
             ''eip-1.json''
           = Inl (UnicodeEncodeError,
                (Map.empty(''eip-1.json'' \<mapsto> Some (JObj [(''forkRelationships'',
                   JArr [JNull, JStr ''x'',
                         JObj [(''forkName'', JStr ''Pectra''), (''status'', JStr ''Included''),
                               (''statusHistory'', JArr [])]])])))
                (''eip-1.json'' \<mapsto> None), [])))
   \<and> migrate_eip_file id Some None
        (Map.empty(''eip-1.json'' \<mapsto> Some (JObj [(''forkRelationships'',
           JArr [JNull, JStr ''x'',
                 JObj [(''forkName'', JStr ''Pectra''), (''status'', JStr ''Included''),
                       (''statusHistory'', JArr [])]])])))
        ''eip-1.json''
      = Inr (True,
           Map.empty(''eip-1.json'' \<mapsto> Some (JObj [(''forkRelationships'',
              JArr [JNull, JStr ''x'',
                    JObj [(''forkName'', JStr ''Pectra''),
                          (''statusHistory'', JArr [JObj [(''status'', JStr ''Included'')]])]])])),
           [])"
proof -
  let ?f = "[(''forkName'', JStr ''Pectra''), (''status'', JStr ''Included''),
             (''statusHistory'', JArr [])]"
  let ?forks = "[JNull, JStr ''x'', JObj ?f]"
  let ?d = "[(''forkRelationships'', JArr ?forks)]"
  let ?fs = "Map.empty(''eip-1.json'' \<mapsto> Some (JObj ?d))"
  have 1: "?fs ''eip-1.json'' = Some (Some (JObj ?d))" by simp
  have 2: "id (Some (JObj ?d)) = Some (JObj ?d)" by simp
  have 3: "dict_get ?d ''forkRelationships'' = Some (JArr ?forks)" by simp
  have 4: "2 < length ?forks" by simp
  have 5: "?forks ! 2 = JObj ?f" by simp
  have 6: "dict_get ?f ''status'' = Some (JStr ''Included'')" by simp
  have 7: "''Included'' \<noteq> []" by simp
  have 8: "dict_get ?f ''statusHistory'' = None \<or> dict_get ?f ''statusHistory'' = Some JNull
           \<or> dict_get ?f ''statusHistory'' = Some (JArr [])" by simp
  note inst = status_promotion
      [where loads = id and dumps = Some and empty_text = None and fs = ?fs, OF 1 2 3 4 5 6 7 8]
  have run: "migrate_eip_file id Some None ?fs ''eip-1.json''
      = Inr (True,
           Map.empty(''eip-1.json'' \<mapsto> Some (JObj [(''forkRelationships'',
              JArr [JNull, JStr ''x'',
                    JObj [(''forkName'', JStr ''Pectra''),
                          (''statusHistory'', JArr [JObj [(''status'', JStr ''Included'')]])]])])),
           [])"
    by (simp add: migrate_eip_file_def migrate_data_def migrate_fork_def status_history_def)
  show ?thesis using inst run by (rule conjI)
qed

text \<open>
  Claim C4. Let element \<open>i\<close> of the array be an object \<open>f\<close> with a string under \<^verbatim>\<open>status\<close>
  (empty or not) and a non-empty array under \<^verbatim>\<open>statusHistory\<close>. Then lines 31 to 54 set
  \<^verbatim>\<open>modified\<close>, and element \<open>i\<close> of the migrated array is \<open>f\<close> with \<^verbatim>\<open>status\<close> popped and
  nothing else touched: the same \<^verbatim>\<open>statusHistory\<close>, no \<^verbatim>\<open>status\<close>, every other field as
  before. The run then writes the migrated document and returns \<open>True\<close>, unless the
  document cannot be encoded: then line 57 raises and leaves the file empty.
\<close>

theorem existing_history_preserved:
  assumes "fs path = Some text" and "loads text = Some (JObj d)"
    and "dict_get d ''forkRelationships'' = Some (JArr forks)"
    and "i < length forks" and "forks ! i = JObj f"
    and "dict_get f ''status'' = Some (JStr s)"
    and "dict_get f ''statusHistory'' = Some (JArr (h # hs))"
  shows "\<exists>data' forks' f'.
           migrate_data (JObj d) = Inr (data', True)
         \<and> fork_relationships data' = Some forks' \<and> length forks' = length forks
         \<and> forks' ! i = JObj f'
         \<and> f' = dict_pop f ''status''
         \<and> dict_get f' ''statusHistory'' = Some (JArr (h # hs))
         \<and> dict_get f' ''status'' = None
         \<and> (\<forall>k. k \<noteq> ''status'' \<longrightarrow> dict_get f' k = dict_get f k)
         \<and> (encodable data' \<longrightarrow>
              migrate_eip_file loads dumps empty_text fs path
                = Inr (True, fs(path \<mapsto> dumps data'), []))
         \<and> (\<not> encodable data' \<longrightarrow>
              migrate_eip_file loads dumps empty_text fs path
                = Inl (UnicodeEncodeError, fs(path \<mapsto> empty_text), []))"
proof -
  let ?forks' = "map (\<lambda>f. fst (migrate_fork f)) forks"
  let ?data' = "JObj (dict_set d ''forkRelationships'' (JArr ?forks'))"
  let ?f' = "dict_pop f ''status''"
  have st: "has_str_status (forks ! i)"
    using assms(5,6) by simp
  have md: "migrate_data (JObj d) = Inr (?data', True)"
    using assms(3,4) st by (rule migrate_data_changed)
  have ok: "encodable ?data' \<longrightarrow>
              migrate_eip_file loads dumps empty_text fs path
                = Inr (True, fs(path \<mapsto> dumps ?data'), [])"
    using assms(1,2) md by (simp add: migrate_eip_file_read)
  have bad: "\<not> encodable ?data' \<longrightarrow>
              migrate_eip_file loads dumps empty_text fs path
                = Inl (UnicodeEncodeError, fs(path \<mapsto> empty_text), [])"
    using assms(1,2) md by (simp add: migrate_eip_file_read)
  have elem: "?forks' ! i = JObj ?f'"
    using assms(4,5) migrate_fork_keep [OF assms(6,7)] by (simp add: dict_set_same [OF assms(7)])
  have gets: "dict_get ?f' ''statusHistory'' = Some (JArr (h # hs))"
    "dict_get ?f' ''status'' = None"
    "\<forall>k. k \<noteq> ''status'' \<longrightarrow> dict_get ?f' k = dict_get f k"
    using assms(7) by (simp_all add: dict_get_pop)
  have fr: "fork_relationships ?data' = Some ?forks'" "length ?forks' = length forks"
    by (simp_all add: fork_relationships_set)
  show ?thesis
    using md fr elem gets ok bad by blast
qed

theorem existing_history_preserved_witness:
  "(\<exists>data' forks' f'.
       migrate_data (JObj [(''forkRelationships'',
            JArr [JObj [(''status'', JStr ''Draft''),
                        (''statusHistory'', JArr [JObj [(''status'', JStr ''Final'')]])]])])
         = Inr (data', True)
     \<and> fork_relationships data' = Some forks'
     \<and> length forks' = length [JObj [(''status'', JStr ''Draft''),
                        (''statusHistory'', JArr [JObj [(''status'', JStr ''Final'')]])]]
     \<and> forks' ! 0 = JObj f'
     \<and> f' = dict_pop [(''status'', JStr ''Draft''),
                        (''statusHistory'', JArr [JObj [(''status'', JStr ''Final'')]])] ''status''
     \<and> dict_get f' ''statusHistory'' = Some (JArr [JObj [(''status'', JStr ''Final'')]])
     \<and> dict_get f' ''status'' = None
     \<and> (\<forall>k. k \<noteq> ''status'' \<longrightarrow>
            dict_get f' k = dict_get [(''status'', JStr ''Draft''),
                        (''statusHistory'', JArr [JObj [(''status'', JStr ''Final'')]])] k)
     \<and> (encodable data' \<longrightarrow>
          migrate_eip_file id Some None
             (Map.empty(''eip-1.json'' \<mapsto> Some (JObj [(''forkRelationships'',
                JArr [JObj [(''status'', JStr ''Draft''),
                            (''statusHistory'', JArr [JObj [(''status'', JStr ''Final'')]])]])])))
             ''eip-1.json''
           = Inr (True,
                (Map.empty(''eip-1.json'' \<mapsto> Some (JObj [(''forkRelationships'',
                   JArr [JObj [(''status'', JStr ''Draft''),
                               (''statusHistory'', JArr [JObj [(''status'', JStr ''Final'')]])]])])))
                (''eip-1.json'' \<mapsto> Some data'), []))
     \<and> (\<not> encodable data' \<longrightarrow>
          migrate_eip_file id Some None
             (Map.empty(''eip-1.json'' \<mapsto> Some (JObj [(''forkRelationships'',
                JArr [JObj [(''status'', JStr ''Draft''),
                            (''statusHistory'', JArr [JObj [(''status'', JStr ''Final'')]])]])])))
             ''eip-1.json''
           = Inl (UnicodeEncodeError,
                (Map.empty(''eip-1.json'' \<mapsto> Some (JObj [(''forkRelationships'',
                   JArr [JObj [(''status'', JStr ''Draft''),
                               (''statusHistory'', JArr [JObj [(''status'', JStr ''Final'')]])]])])))
                (''eip-1.json'' \<mapsto> None), [])))
   \<and> migrate_eip_file id Some None
        (Map.empty(''eip-1.json'' \<mapsto> Some (JObj [(''forkRelationships'',
           JArr [JObj [(''status'', JStr ''Draft''),
                       (''statusHistory'', JArr [JObj [(''status'', JStr ''Final'')]])]])])))
        ''eip-1.json''
      = Inr (True,
           Map.empty(''eip-1.json'' \<mapsto> Some (JObj [(''forkRelationships'',
              JArr [JObj [(''statusHistory'', JArr [JObj [(''status'', JStr ''Final'')]])]])])),
           [])"
proof -
  let ?f = "[(''status'', JStr ''Draft''),
             (''statusHistory'', JArr [JObj [(''status'', JStr ''Final'')]])]"
  let ?forks = "[JObj ?f]"
  let ?d = "[(''forkRelationships'', JArr ?forks)]"
  let ?fs = "Map.empty(''eip-1.json'' \<mapsto> Some (JObj ?d))"
  have 1: "?fs ''eip-1.json'' = Some (Some (JObj ?d))" by simp
  have 2: "id (Some (JObj ?d)) = Some (JObj ?d)" by simp
  have 3: "dict_get ?d ''forkRelationships'' = Some (JArr ?forks)" by simp
  have 4: "0 < length ?forks" by simp
  have 5: "?forks ! 0 = JObj ?f" by simp
  have 6: "dict_get ?f ''status'' = Some (JStr ''Draft'')" by simp
  have 7: "dict_get ?f ''statusHistory'' = Some (JArr [JObj [(''status'', JStr ''Final'')]])"
    by simp
  note inst = existing_history_preserved
      [where loads = id and dumps = Some and empty_text = None and fs = ?fs, OF 1 2 3 4 5 6 7]
  have run: "migrate_eip_file id Some None ?fs ''eip-1.json''
      = Inr (True,
           Map.empty(''eip-1.json'' \<mapsto> Some (JObj [(''forkRelationships'',
              JArr [JObj [(''statusHistory'', JArr [JObj [(''status'', JStr ''Final'')]])]])])),
           [])"
    by (simp add: migrate_eip_file_def migrate_data_def migrate_fork_def status_history_def)
  show ?thesis using inst run by (rule conjI)
qed

section \<open>Normalisation of the entries\<close>

text \<open>
  Claim C5, as the code has it. Let the document be an object whose \<^verbatim>\<open>forkRelationships\<close> is
  an array. After lines 31 to 54 the array in \<^verbatim>\<open>data\<close> has its old length, and at every
  position:
  \<^item> an object entry is an object again, carries a \<^verbatim>\<open>statusHistory\<close> key and has every field
    other than \<^verbatim>\<open>status\<close> and \<^verbatim>\<open>statusHistory\<close> as before; when its \<^verbatim>\<open>status\<close> was not a
    string it is the old entry with \<^verbatim>\<open>statusHistory\<close> set to the existing history of line
    41, and when it had neither \<^verbatim>\<open>status\<close> nor \<^verbatim>\<open>statusHistory\<close> it is the old entry with
    \<^verbatim>\<open>"statusHistory": []\<close> added at the end;
  \<^item> an entry that is not an object is unchanged.

  That document reaches the file only through the write of line 57, which runs exactly when
  some object entry had a string \<^verbatim>\<open>status\<close>. Otherwise the run returns \<open>False\<close> and the
  file is left as it was.
\<close>

theorem entries_normalized:
  assumes "fs path = Some text" and "loads text = Some (JObj d)"
    and "dict_get d ''forkRelationships'' = Some (JArr forks)"
  shows "\<exists>data' forks'.
           migrate_data (JObj d) = Inr (data', list_ex has_str_status forks)
         \<and> fork_relationships data' = Some forks' \<and> length forks' = length forks
         \<and> (\<forall>i < length forks.
               (\<forall>f. forks ! i = JObj f \<longrightarrow>
                  (\<exists>f' h. forks' ! i = JObj f' \<and> dict_get f' ''statusHistory'' = Some h
                     \<and> (\<forall>k. k \<noteq> ''status'' \<and> k \<noteq> ''statusHistory'' \<longrightarrow>
                           dict_get f' k = dict_get f k)
                     \<and> ((\<forall>s. dict_get f ''status'' \<noteq> Some (JStr s)) \<longrightarrow>
                           f' = dict_set f ''statusHistory'' (status_history f))
                     \<and> (dict_get f ''status'' = None \<and> dict_get f ''statusHistory'' = None \<longrightarrow>
                           f' = f @ [(''statusHistory'', JArr [])])))
             \<and> ((\<forall>f. forks ! i \<noteq> JObj f) \<longrightarrow> forks' ! i = forks ! i))
         \<and> (\<not> list_ex has_str_status forks \<longrightarrow>
               migrate_eip_file loads dumps empty_text fs path = Inr (False, fs, []))
         \<and> (list_ex has_str_status forks \<and> encodable data' \<longrightarrow>
               migrate_eip_file loads dumps empty_text fs path
                 = Inr (True, fs(path \<mapsto> dumps data'), []))
         \<and> (list_ex has_str_status forks \<and> \<not> encodable data' \<longrightarrow>
               migrate_eip_file loads dumps empty_text fs path
                 = Inl (UnicodeEncodeError, fs(path \<mapsto> empty_text), []))"
proof -
  let ?forks' = "map (\<lambda>f. fst (migrate_fork f)) forks"
  let ?data' = "JObj (dict_set d ''forkRelationships'' (JArr ?forks'))"
  have md: "migrate_data (JObj d) = Inr (?data', list_ex has_str_status forks)"
    using assms(3) by (rule migrate_data_array)
  have fr: "fork_relationships ?data' = Some ?forks'" "length ?forks' = length forks"
    by (simp_all add: fork_relationships_set)
  have entries: "\<forall>i < length forks.
               (\<forall>f. forks ! i = JObj f \<longrightarrow>
                  (\<exists>f' h. ?forks' ! i = JObj f' \<and> dict_get f' ''statusHistory'' = Some h
                     \<and> (\<forall>k. k \<noteq> ''status'' \<and> k \<noteq> ''statusHistory'' \<longrightarrow>
                           dict_get f' k = dict_get f k)
                     \<and> ((\<forall>s. dict_get f ''status'' \<noteq> Some (JStr s)) \<longrightarrow>
                           f' = dict_set f ''statusHistory'' (status_history f))
                     \<and> (dict_get f ''status'' = None \<and> dict_get f ''statusHistory'' = None \<longrightarrow>
                           f' = f @ [(''statusHistory'', JArr [])])))
             \<and> ((\<forall>f. forks ! i \<noteq> JObj f) \<longrightarrow> ?forks' ! i = forks ! i)"
  proof (intro allI impI conjI)
    fix i f assume i: "i < length forks" and f: "forks ! i = JObj f"
    obtain f' h where f': "fst (migrate_fork (JObj f)) = JObj f'"
      and h: "dict_get f' ''statusHistory'' = Some h"
      and rest: "\<forall>k. k \<noteq> ''status'' \<and> k \<noteq> ''statusHistory'' \<longrightarrow> dict_get f' k = dict_get f k"
      using migrate_fork_object [of f] by blast
    have nostr: "(\<forall>s. dict_get f ''status'' \<noteq> Some (JStr s)) \<longrightarrow>
                   f' = dict_set f ''statusHistory'' (status_history f)"
    proof
      assume "\<forall>s. dict_get f ''status'' \<noteq> Some (JStr s)"
      then have "migrate_fork (JObj f) = (JObj (dict_set f ''statusHistory'' (status_history f)), False)"
        by (rule migrate_fork_no_string)
      with f' show "f' = dict_set f ''statusHistory'' (status_history f)" by simp
    qed
    have dflt: "dict_get f ''status'' = None \<and> dict_get f ''statusHistory'' = None \<longrightarrow>
                   f' = f @ [(''statusHistory'', JArr [])]"
    proof
      assume "dict_get f ''status'' = None \<and> dict_get f ''statusHistory'' = None"
      then have "migrate_fork (JObj f) = (JObj (f @ [(''statusHistory'', JArr [])]), False)"
        by (simp add: migrate_fork_default)
      with f' show "f' = f @ [(''statusHistory'', JArr [])]" by simp
    qed
    have at: "?forks' ! i = JObj f'"
      using i f f' by simp
    show "\<exists>f' h. ?forks' ! i = JObj f' \<and> dict_get f' ''statusHistory'' = Some h
                     \<and> (\<forall>k. k \<noteq> ''status'' \<and> k \<noteq> ''statusHistory'' \<longrightarrow>
                           dict_get f' k = dict_get f k)
                     \<and> ((\<forall>s. dict_get f ''status'' \<noteq> Some (JStr s)) \<longrightarrow>
                           f' = dict_set f ''statusHistory'' (status_history f))
                     \<and> (dict_get f ''status'' = None \<and> dict_get f ''statusHistory'' = None \<longrightarrow>
                           f' = f @ [(''statusHistory'', JArr [])])"
      by (intro exI [of _ f'] exI [of _ h] conjI at h rest nostr dflt)
  next
    fix i assume i: "i < length forks" and "\<forall>f. forks ! i \<noteq> JObj f"
    then show "?forks' ! i = forks ! i"
      by (simp add: migrate_fork_other)
  qed
  have none: "\<not> list_ex has_str_status forks \<longrightarrow>
               migrate_eip_file loads dumps empty_text fs path = Inr (False, fs, [])"
    using assms(1,2) md by (simp add: migrate_eip_file_read)
  have ok: "list_ex has_str_status forks \<and> encodable ?data' \<longrightarrow>
               migrate_eip_file loads dumps empty_text fs path
                 = Inr (True, fs(path \<mapsto> dumps ?data'), [])"
    using assms(1,2) md by (simp add: migrate_eip_file_read)
  have bad: "list_ex has_str_status forks \<and> \<not> encodable ?data' \<longrightarrow>
               migrate_eip_file loads dumps empty_text fs path
                 = Inl (UnicodeEncodeError, fs(path \<mapsto> empty_text), [])"
    using assms(1,2) md by (simp add: migrate_eip_file_read)
  show ?thesis
    by (intro exI [of _ ?data'] exI [of _ ?forks'] conjI md fr entries none ok bad)
qed

theorem entries_normalized_witness:
  "(\<exists>data' forks'.
       migrate_data (JObj [(''forkRelationships'', JArr [JObj [(''forkName'', JStr ''Pectra'')], JNull])])
         = Inr (data', list_ex has_str_status [JObj [(''forkName'', JStr ''Pectra'')], JNull])
     \<and> fork_relationships data' = Some forks'
     \<and> length forks' = length [JObj [(''forkName'', JStr ''Pectra'')], JNull]
     \<and> (\<forall>i < length [JObj [(''forkName'', JStr ''Pectra'')], JNull].
           (\<forall>f. [JObj [(''forkName'', JStr ''Pectra'')], JNull] ! i = JObj f \<longrightarrow>
              (\<exists>f' h. forks' ! i = JObj f' \<and> dict_get f' ''statusHistory'' = Some h
                 \<and> (\<forall>k. k \<noteq> ''status'' \<and> k \<noteq> ''statusHistory'' \<longrightarrow>
                       dict_get f' k = dict_get f k)
                 \<and> ((\<forall>s. dict_get f ''status'' \<noteq> Some (JStr s)) \<longrightarrow>
                       f' = dict_set f ''statusHistory'' (status_history f))
                 \<and> (dict_get f ''status'' = None \<and> dict_get f ''statusHistory'' = None \<longrightarrow>
                       f' = f @ [(''statusHistory'', JArr [])])))
         \<and> ((\<forall>f. [JObj [(''forkName'', JStr ''Pectra'')], JNull] ! i \<noteq> JObj f) \<longrightarrow>
               forks' ! i = [JObj [(''forkName'', JStr ''Pectra'')], JNull] ! i))
     \<and> (\<not> list_ex has_str_status [JObj [(''forkName'', JStr ''Pectra'')], JNull] \<longrightarrow>
           migrate_eip_file id Some None
             (Map.empty(''eip-1.json'' \<mapsto>
                Some (JObj [(''forkRelationships'', JArr [JObj [(''forkName'', JStr ''Pectra'')], JNull])])))
             ''eip-1.json''
           = Inr (False,
               Map.empty(''eip-1.json'' \<mapsto>
                Some (JObj [(''forkRelationships'', JArr [JObj [(''forkName'', JStr ''Pectra'')], JNull])])),
               []))
     \<and> (list_ex has_str_status [JObj [(''forkName'', JStr ''Pectra'')], JNull] \<and> encodable data' \<longrightarrow>
           migrate_eip_file id Some None
             (Map.empty(''eip-1.json'' \<mapsto>
                Some (JObj [(''forkRelationships'', JArr [JObj [(''forkName'', JStr ''Pectra'')], JNull])])))
             ''eip-1.json''
           = Inr (True,
               (Map.empty(''eip-1.json'' \<mapsto>
                Some (JObj [(''forkRelationships'', JArr [JObj [(''forkName'', JStr ''Pectra'')], JNull])])))
               (''eip-1.json'' \<mapsto> Some data'), []))
     \<and> (list_ex has_str_status [JObj [(''forkName'', JStr ''Pectra'')], JNull] \<and> \<not> encodable data' \<longrightarrow>
           migrate_eip_file id Some None
             (Map.empty(''eip-1.json'' \<mapsto>
                Some (JObj [(''forkRelationships'', JArr [JObj [(''forkName'', JStr ''Pectra'')], JNull])])))
             ''eip-1.json''
           = Inl (UnicodeEncodeError,
               (Map.empty(''eip-1.json'' \<mapsto>
                Some (JObj [(''forkRelationships'', JArr [JObj [(''forkName'', JStr ''Pectra'')], JNull])])))
               (''eip-1.json'' \<mapsto> None), [])))
   \<and> migrate_data (JObj [(''forkRelationships'', JArr [JObj [(''forkName'', JStr ''Pectra'')], JNull])])
       = Inr (JObj [(''forkRelationships'',
                JArr [JObj [(''forkName'', JStr ''Pectra''), (''statusHistory'', JArr [])], JNull])],
              False)
   \<and> migrate_eip_file id Some None
        (Map.empty(''eip-1.json'' \<mapsto>
           Some (JObj [(''forkRelationships'', JArr [JObj [(''forkName'', JStr ''Pectra'')], JNull])])))
        ''eip-1.json''
       = Inr (False,
           Map.empty(''eip-1.json'' \<mapsto>
             Some (JObj [(''forkRelationships'', JArr [JObj [(''forkName'', JStr ''Pectra'')], JNull])])),
           [])"
proof -
  let ?forks = "[JObj [(''forkName'', JStr ''Pectra'')], JNull]"
  let ?d = "[(''forkRelationships'', JArr ?forks)]"
  let ?fs = "Map.empty(''eip-1.json'' \<mapsto> Some (JObj ?d))"
  have 1: "?fs ''eip-1.json'' = Some (Some (JObj ?d))" by simp
  have 2: "id (Some (JObj ?d)) = Some (JObj ?d)" by simp
  have 3: "dict_get ?d ''forkRelationships'' = Some (JArr ?forks)" by simp
  note inst = entries_normalized
      [where loads = id and dumps = Some and empty_text = None and fs = ?fs, OF 1 2 3]
  have md: "migrate_data (JObj ?d)
       = Inr (JObj [(''forkRelationships'',
                JArr [JObj [(''forkName'', JStr ''Pectra''), (''statusHistory'', JArr [])], JNull])],
              False)"
    by (simp add: migrate_data_def migrate_fork_def status_history_def)
  have run: "migrate_eip_file id Some None ?fs ''eip-1.json'' = Inr (False, ?fs, [])"
    by (simp add: migrate_eip_file_def md)
  show ?thesis using inst md run by (intro conjI)
qed

text \<open>
  The claim as written also promises the key in the file on disk. For
  \<^verbatim>\<open>{"forkRelationships": [{"forkName": "Pectra"}]}\<close> the run returns \<open>False\<close>, the file is
  not rewritten, and its entry still has no \<^verbatim>\<open>statusHistory\<close>.
\<close>

theorem normalization_not_written_counterexample:
  "migrate_eip_file id Some None
     (Map.empty(''eip-1.json'' \<mapsto>
        Some (JObj [(''forkRelationships'', JArr [JObj [(''forkName'', JStr ''Pectra'')]])])))
     ''eip-1.json''
   = Inr (False,
          Map.empty(''eip-1.json'' \<mapsto>
            Some (JObj [(''forkRelationships'', JArr [JObj [(''forkName'', JStr ''Pectra'')]])])),
          [])
   \<and> fork_relationships (JObj [(''forkRelationships'', JArr [JObj [(''forkName'', JStr ''Pectra'')]])])
       = Some [JObj [(''forkName'', JStr ''Pectra'')]]
   \<and> dict_get [(''forkName'', JStr ''Pectra'')] ''statusHistory'' = None"
  by (simp add: migrate_eip_file_def migrate_data_def migrate_fork_def status_history_def
        fork_relationships_def)

section \<open>The existing history\<close>

text \<open>
  Claim C6, as the code has it. The value of \<^verbatim>\<open>status_history\<close> (line 41) is the entry's
  \<^verbatim>\<open>statusHistory\<close> when that is an array, and the empty array when it is \<^verbatim>\<open>null\<close> or
  absent. For the other types Python's truthiness decides: a non-empty string, a non-zero
  number, \<^verbatim>\<open>true\<close> and a non-empty object are taken as they are, and the empty string, zero,
  \<^verbatim>\<open>false\<close> and the empty object give the empty array. The output entry carries that value
  under \<^verbatim>\<open>statusHistory\<close>, unless a non-empty string \<^verbatim>\<open>status\<close> is promoted over an empty
  one.
\<close>

theorem existing_history_cases:
  "(\<forall>xs. dict_get f ''statusHistory'' = Some (JArr xs) \<longrightarrow> status_history f = JArr xs)
   \<and> (dict_get f ''statusHistory'' = None \<or> dict_get f ''statusHistory'' = Some JNull \<longrightarrow>
        status_history f = JArr [])
   \<and> (\<forall>s. dict_get f ''statusHistory'' = Some (JStr s) \<longrightarrow>
        status_history f = (if s = [] then JArr [] else JStr s))
   \<and> (\<forall>n. dict_get f ''statusHistory'' = Some (JInt n) \<longrightarrow>
        status_history f = (if n = 0 then JArr [] else JInt n))
   \<and> (\<forall>w. dict_get f ''statusHistory'' = Some (JFloat w) \<longrightarrow>
        status_history f = (if take_bit 63 w = 0 then JArr [] else JFloat w))
   \<and> (\<forall>b. dict_get f ''statusHistory'' = Some (JBool b) \<longrightarrow>
        status_history f = (if b then JBool True else JArr []))
   \<and> (\<forall>kvs. dict_get f ''statusHistory'' = Some (JObj kvs) \<longrightarrow>
        status_history f = (if kvs = [] then JArr [] else JObj kvs))
   \<and> (\<exists>f' m. migrate_fork (JObj f) = (JObj f', m)
        \<and> (dict_get f' ''statusHistory'' = Some (status_history f)
            \<or> (\<exists>s. dict_get f ''status'' = Some (JStr s) \<and> s \<noteq> [] \<and> status_history f = JArr []
                \<and> dict_get f' ''statusHistory'' = Some (JArr [JObj [(''status'', JStr s)]]))))"
proof -
  have out: "\<exists>f' m. migrate_fork (JObj f) = (JObj f', m)
        \<and> (dict_get f' ''statusHistory'' = Some (status_history f)
            \<or> (\<exists>s. dict_get f ''status'' = Some (JStr s) \<and> s \<noteq> [] \<and> status_history f = JArr []
                \<and> dict_get f' ''statusHistory'' = Some (JArr [JObj [(''status'', JStr s)]])))"
  proof (cases "\<exists>s. dict_get f ''status'' = Some (JStr s)")
    case True
    then obtain s where s: "dict_get f ''status'' = Some (JStr s)" by blast
    show ?thesis
    proof (cases "s \<noteq> [] \<and> \<not> truthy (status_history f)")
      case True
      then have "status_history f = JArr []"
        by (auto simp: status_history_def split: option.splits if_splits)
      then show ?thesis
        using s True by (auto simp: migrate_fork_def dict_get_set dict_get_pop)
    next
      case False
      then show ?thesis
        using s by (auto simp: migrate_fork_def Let_def dict_get_set dict_get_pop)
    qed
  next
    case False
    then have "migrate_fork (JObj f) = (JObj (dict_set f ''statusHistory'' (status_history f)), False)"
      by (auto simp: migrate_fork_def Let_def split: option.splits json.splits)
    then show ?thesis by (auto simp: dict_get_set)
  qed
  show ?thesis
    by (intro conjI allI impI out) (auto simp: status_history_def)
qed

theorem existing_history_cases_witness:
  "status_history [(''forkName'', JStr ''Pectra''), (''statusHistory'', JArr [JObj [(''status'', JStr ''Final'')]])]
     = JArr [JObj [(''status'', JStr ''Final'')]]
   \<and> status_history [(''forkName'', JStr ''Pectra''), (''statusHistory'', JNull)] = JArr []
   \<and> status_history [(''forkName'', JStr ''Pectra'')] = JArr []
   \<and> status_history [(''statusHistory'', JStr ''Final'')] = JStr ''Final''
   \<and> status_history [(''statusHistory'', JInt 0)] = JArr []"
proof -
  have "status_history [(''forkName'', JStr ''Pectra''), (''statusHistory'', JArr [JObj [(''status'', JStr ''Final'')]])]
     = JArr [JObj [(''status'', JStr ''Final'')]]"
    using existing_history_cases
      [of "[(''forkName'', JStr ''Pectra''), (''statusHistory'', JArr [JObj [(''status'', JStr ''Final'')]])]"]
    by simp
  moreover have "status_history [(''forkName'', JStr ''Pectra''), (''statusHistory'', JNull)] = JArr []"
    using existing_history_cases [of "[(''forkName'', JStr ''Pectra''), (''statusHistory'', JNull)]"]
    by simp
  moreover have "status_history [(''forkName'', JStr ''Pectra'')] = JArr []"
    using existing_history_cases [of "[(''forkName'', JStr ''Pectra'')]"]
    by simp
  moreover have "status_history [(''statusHistory'', JStr ''Final'')] = JStr ''Final''"
    using existing_history_cases [of "[(''statusHistory'', JStr ''Final'')]"]
    by simp
  moreover have "status_history [(''statusHistory'', JInt 0)] = JArr []"
    using existing_history_cases [of "[(''statusHistory'', JInt 0)]"]
    by simp
  ultimately show ?thesis by simp
qed

text \<open>
  The claim as written gives the empty array for every value that is not an array. For
  \<^verbatim>\<open>{"status": "Draft", "statusHistory": "Final"}\<close> the existing history is the string
  \<^verbatim>\<open>"Final"\<close>: it is kept in the output and \<^verbatim>\<open>"Draft"\<close> is not promoted.
\<close>

theorem existing_history_truthy_counterexample:
  "status_history [(''status'', JStr ''Draft''), (''statusHistory'', JStr ''Final'')] = JStr ''Final''
   \<and> migrate_fork (JObj [(''status'', JStr ''Draft''), (''statusHistory'', JStr ''Final'')])
       = (JObj [(''statusHistory'', JStr ''Final'')], True)"
  by (simp add: migrate_fork_def status_history_def)

section \<open>Documents without a \<^verbatim>\<open>forkRelationships\<close> array\<close>

text \<open>
  Claim C7. Let the document be an object whose \<^verbatim>\<open>forkRelationships\<close> is missing, \<^verbatim>\<open>null\<close>
  or any value that is not an array. Then the run returns \<open>False\<close>, prints nothing and
  leaves the file system as it was; \<^verbatim>\<open>data\<close> itself is unchanged too.
\<close>

theorem noop_without_fork_relationships:
  assumes "fs path = Some text" and "loads text = Some (JObj d)"
    and "\<forall>xs. dict_get d ''forkRelationships'' \<noteq> Some (JArr xs)"
  shows "migrate_eip_file loads dumps empty_text fs path = Inr (False, fs, [])
         \<and> migrate_data (JObj d) = Inr (JObj d, False)"
proof -
  have "migrate_data (JObj d) = Inr (JObj d, False)"
    using assms(3) by (auto simp: migrate_data_obj split: option.splits json.splits)
  then show ?thesis
    using assms(1,2) by (simp add: migrate_eip_file_read)
qed

theorem noop_without_fork_relationships_witness:
  "migrate_eip_file id Some None
     (Map.empty(''eip-1.json'' \<mapsto> Some (JObj [(''id'', JInt 1), (''forkRelationships'', JNull)])))
     ''eip-1.json''
     = Inr (False,
            Map.empty(''eip-1.json'' \<mapsto> Some (JObj [(''id'', JInt 1), (''forkRelationships'', JNull)])),
            [])
   \<and> migrate_data (JObj [(''id'', JInt 1), (''forkRelationships'', JNull)])
     = Inr (JObj [(''id'', JInt 1), (''forkRelationships'', JNull)], False)"
proof -
  let ?d = "[(''id'', JInt 1), (''forkRelationships'', JNull)]"
  let ?fs = "Map.empty(''eip-1.json'' \<mapsto> Some (JObj ?d))"
  have 1: "?fs ''eip-1.json'' = Some (Some (JObj ?d))" by simp
  have 2: "id (Some (JObj ?d)) = Some (JObj ?d)" by simp
  have 3: "\<forall>xs. dict_get ?d ''forkRelationships'' \<noteq> Some (JArr xs)" by simp
  show ?thesis
    using noop_without_fork_relationships [where loads = id and dumps = Some and empty_text = None and fs = ?fs, OF 1 2 3] .
qed

section \<open>An empty \<^verbatim>\<open>status\<close>\<close>

text \<open>
  Claim C8. For the document \<^verbatim>\<open>{"forkRelationships": [{"status": ""}]}\<close> the run returns
  \<open>True\<close> and writes \<^verbatim>\<open>{"forkRelationships": [{"statusHistory": []}]}\<close>: the empty string
  is removed and nothing is promoted.
\<close>

theorem empty_status_ignored:
  assumes "fs path = Some text"
    and "loads text = Some (JObj [(''forkRelationships'', JArr [JObj [(''status'', JStr [])]])])"
  shows "migrate_eip_file loads dumps empty_text fs path =
           Inr (True,
                fs(path \<mapsto> dumps (JObj [(''forkRelationships'', JArr [JObj [(''statusHistory'', JArr [])]])])),
                [])
         \<and> migrate_data (JObj [(''forkRelationships'', JArr [JObj [(''status'', JStr [])]])])
             = Inr (JObj [(''forkRelationships'', JArr [JObj [(''statusHistory'', JArr [])]])], True)"
proof -
  have "migrate_data (JObj [(''forkRelationships'', JArr [JObj [(''status'', JStr [])]])])
             = Inr (JObj [(''forkRelationships'', JArr [JObj [(''statusHistory'', JArr [])]])], True)"
    by (simp add: migrate_data_def migrate_fork_def status_history_def)
  then show ?thesis
    using assms by (simp add: migrate_eip_file_read)
qed

theorem empty_status_ignored_witness:
  "migrate_eip_file id Some None
     (Map.empty(''eip-1.json'' \<mapsto>
        Some (JObj [(''forkRelationships'', JArr [JObj [(''status'', JStr [])]])])))
     ''eip-1.json''
   = Inr (True,
          (Map.empty(''eip-1.json'' \<mapsto>
             Some (JObj [(''forkRelationships'', JArr [JObj [(''status'', JStr [])]])])))
          (''eip-1.json'' \<mapsto>
             Some (JObj [(''forkRelationships'', JArr [JObj [(''statusHistory'', JArr [])]])])),
          [])
   \<and> migrate_data (JObj [(''forkRelationships'', JArr [JObj [(''status'', JStr [])]])])
       = Inr (JObj [(''forkRelationships'', JArr [JObj [(''statusHistory'', JArr [])]])], True)"
proof -
  let ?doc = "JObj [(''forkRelationships'', JArr [JObj [(''status'', JStr [])]])]"
  let ?fs = "Map.empty(''eip-1.json'' \<mapsto> Some ?doc)"
  have 1: "?fs ''eip-1.json'' = Some (Some ?doc)" by simp
  have 2: "id (Some ?doc) = Some ?doc" by simp
  show ?thesis
    using empty_status_ignored [where loads = id and dumps = Some and empty_text = None and fs = ?fs, OF 1 2] .
qed

section \<open>When a file counts as changed\<close>

text \<open>
  Claim C10. For a file that parses:
  \<^item> whenever \<open>migrate_eip_file\<close> returns, it returns \<open>True\<close> exactly when the document is
    an object whose \<^verbatim>\<open>forkRelationships\<close> is an array with at least one object element whose
    \<^verbatim>\<open>status\<close> is a string;
  \<^item> the flag \<^verbatim>\<open>modified\<close> itself is \<open>True\<close> after lines 31 to 54 exactly for those
    documents, and then the run does return \<open>True\<close>, with the document written, when the
    document can be encoded (otherwise line 57 raises and nothing is returned);
  \<^item> whenever it returns \<open>False\<close> the file system is as before, and an object document
    without such an element, whatever keys its entries lack, gives \<open>False\<close> and no write.
\<close>

theorem changed_iff_string_status:
  assumes "fs path = Some text" and "loads text = Some data"
  shows "(\<forall>c fs' printed.
            migrate_eip_file loads dumps empty_text fs path = Inr (c, fs', printed) \<longrightarrow>
            (c \<longleftrightarrow> needs_migration data))
       \<and> ((\<exists>data'. migrate_data data = Inr (data', True)) \<longleftrightarrow> needs_migration data)
       \<and> (\<forall>data'. migrate_data data = Inr (data', True) \<and> encodable data' \<longrightarrow>
            migrate_eip_file loads dumps empty_text fs path
              = Inr (True, fs(path \<mapsto> dumps data'), []))
       \<and> (\<forall>fs' printed.
            migrate_eip_file loads dumps empty_text fs path = Inr (False, fs', printed) \<longrightarrow> fs' = fs)
       \<and> ((\<exists>d. data = JObj d) \<and> \<not> needs_migration data \<longrightarrow>
            migrate_eip_file loads dumps empty_text fs path = Inr (False, fs, []))"
proof -
  have run: "migrate_eip_file loads dumps empty_text fs path =
     (case migrate_data data of
        Inl e \<Rightarrow> Inl (e, fs, [])
      | Inr (data', modified) \<Rightarrow>
          if modified
          then (if encodable data'
                then Inr (True, fs(path \<mapsto> dumps data'), [])
                else Inl (UnicodeEncodeError, fs(path \<mapsto> empty_text), []))
          else Inr (False, fs, []))"
    using assms by (rule migrate_eip_file_read)
  have flag: "(\<exists>data'. migrate_data data = Inr (data', True)) \<longleftrightarrow> needs_migration data"
  proof (cases data)
    case (JObj d)
    show ?thesis
    proof (cases "\<exists>forks. dict_get d ''forkRelationships'' = Some (JArr forks)")
      case True
      then obtain forks where fr: "dict_get d ''forkRelationships'' = Some (JArr forks)" by blast
      have "needs_migration data = list_ex has_str_status forks"
        using JObj fr by (simp add: needs_migration_def fork_relationships_def)
      then show ?thesis
        using JObj by (simp add: migrate_data_array [OF fr])
    next
      case False
      then have none: "\<forall>xs. dict_get d ''forkRelationships'' \<noteq> Some (JArr xs)" by blast
      have "\<not> needs_migration data"
        using JObj none
        by (auto simp: needs_migration_def fork_relationships_def split: option.splits json.splits)
      then show ?thesis
        using JObj by (simp add: migrate_data_no_array [OF none])
    qed
  qed (simp_all add: migrate_data_def needs_migration_def fork_relationships_def)
  have ret: "\<forall>c fs' printed.
            migrate_eip_file loads dumps empty_text fs path = Inr (c, fs', printed) \<longrightarrow>
            (c \<longleftrightarrow> needs_migration data)"
    using flag unfolding run by (auto split: sum.splits if_splits)
  have wr: "\<forall>data'. migrate_data data = Inr (data', True) \<and> encodable data' \<longrightarrow>
            migrate_eip_file loads dumps empty_text fs path
              = Inr (True, fs(path \<mapsto> dumps data'), [])"
    unfolding run by simp
  have same: "\<forall>fs' printed.
            migrate_eip_file loads dumps empty_text fs path = Inr (False, fs', printed) \<longrightarrow> fs' = fs"
    unfolding run by (auto split: sum.splits if_splits)
  have noop: "(\<exists>d. data = JObj d) \<and> \<not> needs_migration data \<longrightarrow>
            migrate_eip_file loads dumps empty_text fs path = Inr (False, fs, [])"
  proof
    assume a: "(\<exists>d. data = JObj d) \<and> \<not> needs_migration data"
    then obtain d where d: "data = JObj d" by blast
    obtain data' m where md: "migrate_data data = Inr (data', m)"
      using migrate_data_obj_returns [of d] d by blast
    have "\<not> m" using flag md a by auto
    then show "migrate_eip_file loads dumps empty_text fs path = Inr (False, fs, [])"
      unfolding run using md by simp
  qed
  show ?thesis by (intro conjI ret flag wr same noop)
qed

theorem changed_iff_string_status_witness:
  "migrate_eip_file id Some None
        (Map.empty(''eip-1.json'' \<mapsto>
           Some (JObj [(''forkRelationships'', JArr [JObj [(''status'', JStr ''Included'')]])])))
        ''eip-1.json''
     = Inr (True,
          Map.empty(''eip-1.json'' \<mapsto>
           Some (JObj [(''forkRelationships'',
                   JArr [JObj [(''statusHistory'', JArr [JObj [(''status'', JStr ''Included'')]])]])])),
          [])
   \<and> needs_migration (JObj [(''forkRelationships'', JArr [JObj [(''status'', JStr ''Included'')]])])
   \<and> \<not> needs_migration (JObj [(''forkRelationships'', JArr [JObj [(''forkName'', JStr ''Pectra'')]])])
   \<and> migrate_eip_file id Some None
        (Map.empty(''eip-2.json'' \<mapsto>
           Some (JObj [(''forkRelationships'', JArr [JObj [(''forkName'', JStr ''Pectra'')]])])))
        ''eip-2.json''
      = Inr (False,
          Map.empty(''eip-2.json'' \<mapsto>
           Some (JObj [(''forkRelationships'', JArr [JObj [(''forkName'', JStr ''Pectra'')]])])),
          [])"
proof -
  let ?d1 = "JObj [(''forkRelationships'', JArr [JObj [(''status'', JStr ''Included'')]])]"
  let ?d1' = "JObj [(''forkRelationships'',
                   JArr [JObj [(''statusHistory'', JArr [JObj [(''status'', JStr ''Included'')]])]])]"
  let ?d2 = "JObj [(''forkRelationships'', JArr [JObj [(''forkName'', JStr ''Pectra'')]])]"
  let ?fs1 = "Map.empty(''eip-1.json'' \<mapsto> Some ?d1)"
  let ?fs2 = "Map.empty(''eip-2.json'' \<mapsto> Some ?d2)"
  have 1: "?fs1 ''eip-1.json'' = Some (Some ?d1)" "id (Some ?d1) = Some ?d1" by simp_all
  have 2: "?fs2 ''eip-2.json'' = Some (Some ?d2)" "id (Some ?d2) = Some ?d2" by simp_all
  note i1 = changed_iff_string_status
      [where loads = id and dumps = Some and empty_text = None and fs = ?fs1, OF 1]
  note i2 = changed_iff_string_status
      [where loads = id and dumps = Some and empty_text = None and fs = ?fs2, OF 2]
  have md: "migrate_data ?d1 = Inr (?d1', True)"
    by (simp add: migrate_data_def migrate_fork_def status_history_def)
  have enc: "encodable ?d1'" by simp
  have n1: "needs_migration ?d1"
    using i1 [THEN conjunct2, THEN conjunct1] md by blast
  have a: "migrate_eip_file id Some None ?fs1 ''eip-1.json''
             = Inr (True, ?fs1(''eip-1.json'' \<mapsto> Some ?d1'), [])"
    using i1 [THEN conjunct2, THEN conjunct2, THEN conjunct1, rule_format, OF conjI [OF md enc]] .
  have n2: "\<not> needs_migration ?d2"
    by (simp add: needs_migration_def fork_relationships_def)
  have obj: "\<exists>d. ?d2 = JObj d" by blast
  have b: "migrate_eip_file id Some None ?fs2 ''eip-2.json'' = Inr (False, ?fs2, [])"
    using i2 [THEN conjunct2, THEN conjunct2, THEN conjunct2, THEN conjunct2, rule_format,
        OF conjI [OF obj n2]] .
  have a': "migrate_eip_file id Some None ?fs1 ''eip-1.json''
             = Inr (True, Map.empty(''eip-1.json'' \<mapsto> Some ?d1'), [])"
    using a by simp
  show ?thesis using a' n1 n2 b by (intro conjI)
qed

section \<open>Files that cannot be read or parsed\<close>

text \<open>
  Claim C9. Let \<open>file\<close> be a file that cannot be read or whose text does not parse. Then
  \<open>migrate_eip_file\<close> returns \<open>False\<close> for it (nothing is raised), prints the error line and
  leaves the file system as it was; the loop of \<open>main\<close> goes on with the remaining files
  from the same state; and whenever \<open>main\<close> completes on a directory that holds the file,
  the output ends with the summary, whose total is the number of files, whose unchanged
  count is the total minus the migrated count, and whose migrated count is the number of
  \<open>Migrated\<close> lines, none of them for \<open>file\<close>, and so is less than the total.
\<close>

theorem parse_failure_isolated:
  assumes "unreadable loads fs file"
  shows "migrate_eip_file loads dumps empty_text fs file = Inr (False, fs, [ErrorReading file])
       \<and> (\<forall>rest migrated printed.
             main_loop loads dumps empty_text (file # rest) (fs, migrated, printed)
               = main_loop loads dumps empty_text rest (fs, migrated, printed @ [ErrorReading file]))
       \<and> (\<forall>entries fs' printed'.
             file \<in> set entries \<and> main loads dumps empty_text (Some entries) fs = Inr (fs', printed') \<longrightarrow>
             (\<exists>body m.
                 printed' = body @ [SummaryHeader, TotalFiles (int (length entries)), MigratedCount m,
                                    UnchangedCount (int (length entries) - m)]
               \<and> m = int (length (filter is_migrated body)) \<and> m < int (length entries)
               \<and> ErrorReading file \<in> set body \<and> Migrated file \<notin> set body
               \<and> unreadable loads fs' file))"
proof (intro conjI allI impI)
  show one: "migrate_eip_file loads dumps empty_text fs file = Inr (False, fs, [ErrorReading file])"
    using assms by (rule migrate_eip_file_unreadable)
  show "main_loop loads dumps empty_text (file # rest) (fs, migrated, printed)
               = main_loop loads dumps empty_text rest (fs, migrated, printed @ [ErrorReading file])"
    for rest migrated printed
    using one by simp
next
  fix entries fs' printed'
  assume a: "file \<in> set entries \<and> main loads dumps empty_text (Some entries) fs = Inr (fs', printed')"
  let ?files = "sort entries"
  let ?n = "int (length entries)"
  from a obtain m pr where
    loop: "main_loop loads dumps empty_text ?files (fs, 0, [Found (length ?files)]) = Inr (fs', m, pr)"
    and out: "printed' = pr @ [SummaryHeader, TotalFiles ?n, MigratedCount m, UnchangedCount (?n - m)]"
    by (auto simp: main_def Let_def split: sum.splits)
  from main_loop_unreadable [OF loop assms]
  obtain new where u: "unreadable loads fs' file"
    and new: "pr = [Found (length ?files)] @ new" "Migrated file \<notin> set new"
      "m = 0 + int (length (filter is_migrated new))"
      "file \<in> set ?files \<longrightarrow> ErrorReading file \<in> set new"
      "length (filter is_migrated new) \<le> length (filter (\<lambda>g. g \<noteq> file) ?files)"
    by blast
  have "file \<in> set ?files" using a by simp
  then have lt: "length (filter (\<lambda>g. g \<noteq> file) ?files) < length entries"
    by (simp add: filter_neq_less [where files = ?files, simplified])
  have "m = int (length (filter is_migrated pr))" "m < ?n"
    "ErrorReading file \<in> set pr" "Migrated file \<notin> set pr"
    using new lt \<open>file \<in> set ?files\<close> by auto
  with out u
  show "\<exists>body m.
           printed' = body @ [SummaryHeader, TotalFiles ?n, MigratedCount m, UnchangedCount (?n - m)]
         \<and> m = int (length (filter is_migrated body)) \<and> m < ?n
         \<and> ErrorReading file \<in> set body \<and> Migrated file \<notin> set body
         \<and> unreadable loads fs' file"
    by blast
qed

theorem parse_failure_isolated_witness:
  "migrate_eip_file id Some None
      (Map.empty(''a.json'' \<mapsto> None,
                 ''b.json'' \<mapsto> Some (JObj [(''forkRelationships'',
                                             JArr [JObj [(''status'', JStr ''Included'')]])])))
      ''a.json''
    = Inr (False,
           Map.empty(''a.json'' \<mapsto> None,
                 ''b.json'' \<mapsto> Some (JObj [(''forkRelationships'',
                                             JArr [JObj [(''status'', JStr ''Included'')]])])),
           [ErrorReading ''a.json''])
   \<and> main id Some None (Some [''b.json'', ''a.json''])
      (Map.empty(''a.json'' \<mapsto> None,
                 ''b.json'' \<mapsto> Some (JObj [(''forkRelationships'',
                                             JArr [JObj [(''status'', JStr ''Included'')]])])))
    = Inr (Map.empty(''a.json'' \<mapsto> None,
                 ''b.json'' \<mapsto> Some (JObj [(''forkRelationships'',
                      JArr [JObj [(''statusHistory'', JArr [JObj [(''status'', JStr ''Included'')]])]])])),
           [Found 2, ErrorReading ''a.json'', Migrated ''b.json'', SummaryHeader,
            TotalFiles 2, MigratedCount 1, UnchangedCount 1])
   \<and> (\<exists>body m.
         [Found 2, ErrorReading ''a.json'', Migrated ''b.json'', SummaryHeader,
            TotalFiles 2, MigratedCount 1, UnchangedCount 1]
           = body @ [SummaryHeader, TotalFiles (int (length [''b.json'', ''a.json''])), MigratedCount m,
                     UnchangedCount (int (length [''b.json'', ''a.json'']) - m)]
       \<and> m = int (length (filter is_migrated body)) \<and> m < int (length [''b.json'', ''a.json''])
       \<and> ErrorReading ''a.json'' \<in> set body \<and> Migrated ''a.json'' \<notin> set body
       \<and> unreadable id
            (Map.empty(''a.json'' \<mapsto> None,
                 ''b.json'' \<mapsto> Some (JObj [(''forkRelationships'',
                      JArr [JObj [(''statusHistory'', JArr [JObj [(''status'', JStr ''Included'')]])]])])))
            ''a.json'')"
proof -
  let ?doc = "JObj [(''forkRelationships'', JArr [JObj [(''status'', JStr ''Included'')]])]"
  let ?doc' = "JObj [(''forkRelationships'',
                  JArr [JObj [(''statusHistory'', JArr [JObj [(''status'', JStr ''Included'')]])]])]"
  let ?fs = "Map.empty(''a.json'' \<mapsto> None, ''b.json'' \<mapsto> Some ?doc)"
  let ?fs' = "Map.empty(''a.json'' \<mapsto> None, ''b.json'' \<mapsto> Some ?doc')"
  let ?out = "[Found 2, ErrorReading ''a.json'', Migrated ''b.json'', SummaryHeader,
            TotalFiles 2, MigratedCount 1, UnchangedCount 1]"
  have u: "unreadable id ?fs ''a.json''"
    by (simp add: unreadable_def)
  have srt: "sort [''b.json'', ''a.json''] = [''a.json'', ''b.json'']"
    by code_simp
  have a: "migrate_eip_file id Some None ?fs ''a.json'' = Inr (False, ?fs, [ErrorReading ''a.json''])"
    by (simp add: migrate_eip_file_def)
  have md: "migrate_data ?doc = Inr (?doc', True)"
    by (simp add: migrate_data_def migrate_fork_def status_history_def)
  have b: "migrate_eip_file id Some None ?fs ''b.json'' = Inr (True, ?fs', [])"
    by (simp add: migrate_eip_file_def md)
  have run: "main id Some None (Some [''b.json'', ''a.json'']) ?fs = Inr (?fs', ?out)"
    by (simp add: main_def srt a b)
  have mem: "''a.json'' \<in> set [''b.json'', ''a.json'']" by simp
  note inst = parse_failure_isolated [where loads = id and dumps = Some and empty_text = None and fs = ?fs, OF u]
  have 1: "migrate_eip_file id Some None ?fs ''a.json'' = Inr (False, ?fs, [ErrorReading ''a.json''])"
    using inst by (rule conjunct1)
  have 3: "\<exists>body m.
         ?out = body @ [SummaryHeader, TotalFiles (int (length [''b.json'', ''a.json''])), MigratedCount m,
                        UnchangedCount (int (length [''b.json'', ''a.json'']) - m)]
       \<and> m = int (length (filter is_migrated body)) \<and> m < int (length [''b.json'', ''a.json''])
       \<and> ErrorReading ''a.json'' \<in> set body \<and> Migrated ''a.json'' \<notin> set body
       \<and> unreadable id ?fs' ''a.json''"
    using inst [THEN conjunct2, THEN conjunct2, rule_format, OF conjI [OF mem run]] .
  show ?thesis using 1 run 3 by (intro conjI)
qed

end
